theory Spec2Isabelle
  imports Main
begin

section \<open>JavaScript values and string primitives\<close>

text \<open>
  A parsed JSON value, as \<open>req.json()\<close> delivers it. A number is carried as its
  JavaScript string form (\<open>Number::toString\<close>), which is all the handlers can observe
  of it. Characters are code units below 256.
\<close>

datatype json =
    JNull
  | JBool bool
  | JNum string
  | JStr string
  | JArr "json list"
  | JObj "(string \<times> json) list"

text \<open>
  Property access \<open>body?.k\<close> for the keys the handlers read: \<open>None\<close> is
  \<open>undefined\<close>. Only an object has such a property; \<open>JSON.parse\<close> keeps the last
  of duplicate keys.
\<close>

fun property :: "json option \<Rightarrow> string \<Rightarrow> json option" where
  "property (Some (JObj kvs)) k = map_of (rev kvs) k"
| "property _ k = None"

text \<open>\<open>typeof v === "string" ? v : ""\<close>\<close>

fun string_or_empty :: "json option \<Rightarrow> string" where
  "string_or_empty (Some (JStr s)) = s"
| "string_or_empty _ = []"

text \<open>\<open>String.prototype.startsWith\<close>\<close>

definition startsWith :: "string \<Rightarrow> string \<Rightarrow> bool" where
  "startsWith s p = (take (length p) s = p)"

text \<open>
  \<open>String.prototype.split\<close> with a one-character separator: the empty string gives one
  empty segment, and the result is never empty.
\<close>

fun js_split :: "char \<Rightarrow> string \<Rightarrow> string list" where
  "js_split sep [] = [[]]"
| "js_split sep (c # cs) =
     (if c = sep then [] # js_split sep cs
      else (c # hd (js_split sep cs)) # tl (js_split sep cs))"

text \<open>Array indexing \<open>xs[i]\<close>: \<open>undefined\<close> out of range.\<close>

definition js_index :: "'a list \<Rightarrow> nat \<Rightarrow> 'a option" where
  "js_index xs i = (if i < length xs then Some (xs ! i) else None)"

text \<open>
  \<open>String.prototype.trim\<close>: white space and line terminators among the code units
  below 256 are TAB, LF, VT, FF, CR, SPACE and NBSP.
\<close>

definition js_whitespace :: "char \<Rightarrow> bool" where
  "js_whitespace c =
     (c \<in> set [CHR 0x09, CHR 0x0A, CHR 0x0B, CHR 0x0C, CHR 0x0D, CHR 0x20, CHR 0xA0])"

definition trim :: "string \<Rightarrow> string" where
  "trim s = rev (dropWhile js_whitespace (rev (dropWhile js_whitespace s)))"

text \<open>\<open>Array.prototype.join(",")\<close> on strings.\<close>

fun join_comma :: "string list \<Rightarrow> string" where
  "join_comma [] = []"
| "join_comma [s] = s"
| "join_comma (s # t # ss) = s @ '','' @ join_comma (t # ss)"

text \<open>
  The string coercion of a template literal, \<open>`${v}`\<close>, which the store client applies
  to a filter value: an array joins its elements (\<open>null\<close> as the empty string), an
  object is \<open>[object Object]\<close>.
\<close>

fun toString :: "json \<Rightarrow> string" where
  "toString JNull = ''null''"
| "toString (JBool b) = (if b then ''true'' else ''false'')"
| "toString (JNum n) = n"
| "toString (JStr s) = s"
| "toString (JArr xs) = join_comma (map (\<lambda>x. if x = JNull then [] else toString x) xs)"
| "toString (JObj kvs) = ''[object Object]''"

fun filter_value :: "json option \<Rightarrow> string" where
  "filter_value None = ''undefined''"
| "filter_value (Some v) = toString v"

section \<open>Rows, the store and the storage interface\<close>

text \<open>
  The columns are those the three handlers select, filter on or update. A column that
  several tables share (\<open>id\<close>, \<open>player_id\<close>, \<open>room_id\<close>) carries its table's name.
\<close>

record session_row =
  session_token :: string
  session_player_id :: string

record player_row =
  player_id :: string
  player_room_id :: string

record room_row =
  room_id :: string
  room_code :: string
  room_status :: string
  room_ends_at :: "string option"

record member_row =
  member_room_id :: string
  member_player_id :: string
  member_role :: string

record challenge_row =
  pc_id :: string
  pc_player_id :: string
  pc_block_start :: string
  media_url :: "string option"
  media_type :: "string option"
  media_mime :: "string option"
  media_uploaded_at :: "string option"

text \<open>What \<open>createSignedUploadUrl\<close> returns in \<open>data\<close>.\<close>

record signed_upload =
  su_path :: string
  su_token :: string
  su_signedUrl :: string

text \<open>The calls a handler makes on the store and on storage, in order.\<close>

datatype call =
    Select string "(string \<times> string) list"
  | Update string "(string \<times> string) list"
  | CreateSignedUploadUrl string string bool

text \<open>
  The world outside the handler: the five tables, the outcome of the coming store calls
  (\<open>Some msg\<close> is a failure with that message; an exhausted list means no failure), the
  storage service's answer to a credential request (bucket, path, upsert), the clock read
  by \<open>new Date()\<close>, and the log of calls made so far.
\<close>

record world =
  player_sessions :: "session_row list"
  players :: "player_row list"
  rooms :: "room_row list"
  room_members :: "member_row list"
  player_challenges :: "challenge_row list"
  faults :: "string option list"
  storage_sign :: "string \<Rightarrow> string \<Rightarrow> bool \<Rightarrow> string + signed_upload"
  clock :: string
  calls :: "call list"

text \<open>
  One round trip to the store: it is logged, and it takes the next scheduled outcome.
\<close>

definition next_fault :: "world \<Rightarrow> string option" where
  "next_fault w = (case faults w of [] \<Rightarrow> None | f # fs \<Rightarrow> f)"

definition store_call :: "call \<Rightarrow> world \<Rightarrow> string option \<times> world" where
  "store_call c w = (next_fault w, w\<lparr>faults := tl (faults w), calls := calls w @ [c]\<rparr>)"

text \<open>
  \<open>maybeSingle\<close>: no row is \<open>data = null\<close> without error, one row is that row, several
  rows are an error.
\<close>

definition PGRST116 :: string where
  "PGRST116 = ''JSON object requested, multiple (or no) rows returned''"

fun maybeSingle :: "'r list \<Rightarrow> string + 'r option" where
  "maybeSingle [] = Inr None"
| "maybeSingle [r] = Inr (Some r)"
| "maybeSingle (r # r' # rs) = Inl PGRST116"

definition select_maybeSingle ::
  "string \<Rightarrow> (string \<times> string) list \<Rightarrow> 'r list \<Rightarrow> ('r \<Rightarrow> bool) \<Rightarrow> world
     \<Rightarrow> (string + 'r option) \<times> world" where
  "select_maybeSingle table eqs rows matches w =
     (case store_call (Select table eqs) w of
        (Some e, w') \<Rightarrow> (Inl e, w')
      | (None, w') \<Rightarrow> (maybeSingle (filter matches rows), w'))"

definition find_session :: "string \<Rightarrow> world \<Rightarrow> (string + session_row option) \<times> world" where
  "find_session tok w =
     select_maybeSingle ''player_sessions'' [(''session_token'', tok)]
       (player_sessions w) (\<lambda>r. session_token r = tok) w"

definition find_player :: "string \<Rightarrow> world \<Rightarrow> (string + player_row option) \<times> world" where
  "find_player pid w =
     select_maybeSingle ''players'' [(''id'', pid)]
       (players w) (\<lambda>r. player_id r = pid) w"

definition find_room :: "string \<Rightarrow> world \<Rightarrow> (string + room_row option) \<times> world" where
  "find_room c w =
     select_maybeSingle ''rooms'' [(''code'', c)]
       (rooms w) (\<lambda>r. room_code r = c) w"

definition find_member ::
  "string \<Rightarrow> string \<Rightarrow> world \<Rightarrow> (string + member_row option) \<times> world" where
  "find_member rid pid w =
     select_maybeSingle ''room_members'' [(''room_id'', rid), (''player_id'', pid)]
       (room_members w) (\<lambda>r. member_room_id r = rid \<and> member_player_id r = pid) w"

definition find_challenge ::
  "string \<Rightarrow> world \<Rightarrow> (string + challenge_row option) \<times> world" where
  "find_challenge k w =
     select_maybeSingle ''player_challenges'' [(''id'', k)]
       (player_challenges w) (\<lambda>r. pc_id r = k) w"

text \<open>
  \<open>update(fields).eq("id", k)\<close>: every row with that id gets the fields; a failed update
  changes no row.
\<close>

definition update_challenge_media ::
  "string \<Rightarrow> string \<Rightarrow> string \<Rightarrow> string \<Rightarrow> string \<Rightarrow> world \<Rightarrow> string option \<times> world" where
  "update_challenge_media k url ty mime at w =
     (case store_call (Update ''player_challenges'' [(''id'', k)]) w of
        (Some e, w') \<Rightarrow> (Some e, w')
      | (None, w') \<Rightarrow>
          (None, w'\<lparr>player_challenges :=
             map (\<lambda>r. if pc_id r = k
                       then r\<lparr>media_url := Some url, media_type := Some ty,
                              media_mime := Some mime, media_uploaded_at := Some at\<rparr>
                       else r) (player_challenges w')\<rparr>))"

definition update_room_ended :: "string \<Rightarrow> string \<Rightarrow> world \<Rightarrow> string option \<times> world" where
  "update_room_ended k at w =
     (case store_call (Update ''rooms'' [(''id'', k)]) w of
        (Some e, w') \<Rightarrow> (Some e, w')
      | (None, w') \<Rightarrow>
          (None, w'\<lparr>rooms :=
             map (\<lambda>r. if room_id r = k
                       then r\<lparr>room_status := ''ended'', room_ends_at := Some at\<rparr>
                       else r) (rooms w')\<rparr>))"

text \<open>The credential request: logged, answered by the storage service.\<close>

definition create_signed_upload_url ::
  "string \<Rightarrow> string \<Rightarrow> bool \<Rightarrow> world \<Rightarrow> (string + signed_upload) \<times> world" where
  "create_signed_upload_url bucket p upsert w =
     (storage_sign w bucket p upsert,
      w\<lparr>calls := calls w @ [CreateSignedUploadUrl bucket p upsert]\<rparr>)"

section \<open>Requests, responses and the helpers of the validators library\<close>

record request =
  headers :: "(string \<times> string) list"
  json_body :: "json option"

text \<open>
  The body of a JSON response with its HTTP status: \<open>{ok: false, error}\<close>, the same with a
  \<open>hint\<close>, and the three success bodies (\<open>upload: {path, token, signedUrl}\<close>,
  \<open>media: {url, mime, type}\<close>, \<open>endedAt\<close>).
\<close>

datatype response =
    Failure nat string
  | FailureHint nat string string
  | OkUpload string string string
  | OkMedia string string string
  | OkEnded string

text \<open>
  A handler returns a response, or an exception escapes it (\<open>Inl\<close>, with the
  exception's name).
\<close>

type_synonym outcome = "string + response"

text \<open>
  The helpers imported from \<open>@/lib/validators\<close> and the pure functions of the runtime
  and of the storage client are parameters of the handlers:
  \<open>readSessionTokenFromRequest\<close> (\<open>None\<close> is \<open>null\<close> or \<open>undefined\<close>),
  \<open>validateUuid\<close> and \<open>validateRoomCode\<close> on a value of unknown type,
  \<open>new Date(s).toISOString()\<close> (\<open>None\<close> when it throws a RangeError on an invalid date)
  and \<open>getPublicUrl\<close> of a bucket and a path.
\<close>

record platform =
  readSessionTokenFromRequest :: "request \<Rightarrow> string option"
  validateUuid :: "json option \<Rightarrow> bool"
  validateRoomCode :: "json option \<Rightarrow> bool"
  toISOString :: "string \<Rightarrow> string option"
  getPublicUrl :: "string \<Rightarrow> string \<Rightarrow> string"

definition BUCKET :: string where
  "BUCKET = ''retos''"

section \<open>The handlers\<close>

subsection \<open>Upload commit\<close>

definition mediaTypeFromMime :: "string \<Rightarrow> string" where
  "mediaTypeFromMime mime = (if startsWith mime ''video/'' then ''video'' else ''image'')"

text \<open>
  \<open>POST\<close> of the commit route. The checks run in the order of the source: the token's
  presence, the id, the path, the mime, then the session row, the challenge row and its
  owner, the path's prefix, and last the update. \<open>playerChallengeId.trim()\<close> is evaluated
  after the session lookup and throws a TypeError on a value that is not a string.
\<close>

definition commit_POST :: "platform \<Rightarrow> request \<Rightarrow> world \<Rightarrow> outcome \<times> world" where
  "commit_POST P req w =
     (case readSessionTokenFromRequest P req of
        None \<Rightarrow> (Inr (Failure 401 ''UNAUTHORIZED''), w)
      | Some sessionToken \<Rightarrow>
     if sessionToken = [] then (Inr (Failure 401 ''UNAUTHORIZED''), w) else
     let body = json_body req;
         playerChallengeId = property body ''playerChallengeId'';
         path = string_or_empty (property body ''path'');
         mime = string_or_empty (property body ''mime'')
     in
     if \<not> validateUuid P playerChallengeId
     then (Inr (Failure 400 ''INVALID_PLAYER_CHALLENGE_ID''), w)
     else if path = [] then (Inr (Failure 400 ''INVALID_PATH''), w)
     else if mime = [] \<or> (\<not> startsWith mime ''image/'' \<and> \<not> startsWith mime ''video/'')
     then (Inr (Failure 400 ''INVALID_MIME''), w)
     else
     (case find_session sessionToken w of
        (Inl sessionError, w1) \<Rightarrow> (Inr (Failure 500 sessionError), w1)
      | (Inr None, w1) \<Rightarrow> (Inr (Failure 401 ''UNAUTHORIZED''), w1)
      | (Inr (Some session), w1) \<Rightarrow>
     (case playerChallengeId of
        Some (JStr idString) \<Rightarrow>
     (case find_challenge (trim idString) w1 of
        (Inl pcError, w2) \<Rightarrow> (Inr (Failure 500 pcError), w2)
      | (Inr None, w2) \<Rightarrow> (Inr (Failure 403 ''NOT_ALLOWED''), w2)
      | (Inr (Some pc), w2) \<Rightarrow>
     if pc_player_id pc \<noteq> session_player_id session
     then (Inr (Failure 403 ''NOT_ALLOWED''), w2)
     else if \<not> startsWith path (session_player_id session @ ''/'')
     then (Inr (Failure 403 ''NOT_ALLOWED''), w2)
     else
     let publicUrl = getPublicUrl P BUCKET path;
         mediaType = mediaTypeFromMime mime
     in
     (case update_challenge_media (pc_id pc) publicUrl mediaType mime (clock w2) w2 of
        (Some updateError, w3) \<Rightarrow> (Inr (Failure 500 updateError), w3)
      | (None, w3) \<Rightarrow> (Inr (OkMedia publicUrl mime mediaType), w3)))
      | _ \<Rightarrow> (Inl ''TypeError'', w1))))"

subsection \<open>Upload reserve\<close>

definition extFromMime :: "string \<Rightarrow> string" where
  "extFromMime mime =
     (if startsWith mime ''image/'' then
        (case js_index (js_split CHR ''/'' mime) 1 of
           None \<Rightarrow> ''.jpg''
         | Some sub \<Rightarrow> if sub \<noteq> [] then ''.'' @ sub else ''.jpg'')
      else if startsWith mime ''video/'' then
        (case js_index (js_split CHR ''/'' mime) 1 of
           None \<Rightarrow> ''.mp4''
         | Some sub \<Rightarrow> if sub \<noteq> [] then ''.'' @ sub else ''.mp4'')
      else [])"

definition bucket_hint :: string where
  "bucket_hint = ''Crea el bucket '' @ [CHR 0x27] @ BUCKET @ [CHR 0x27] @ '' en Supabase Storage.''"

text \<open>
  \<open>POST\<close> of the reserve route: the same checks up to the owner of the challenge row (it
  reads no path), then the path is built from the session row, the challenge row and the
  mime, and the credential is requested for it. \<open>toISOString\<close> throws a RangeError when
  \<open>block_start\<close> is not a date.
\<close>

definition reserve_POST :: "platform \<Rightarrow> request \<Rightarrow> world \<Rightarrow> outcome \<times> world" where
  "reserve_POST P req w =
     (case readSessionTokenFromRequest P req of
        None \<Rightarrow> (Inr (Failure 401 ''UNAUTHORIZED''), w)
      | Some sessionToken \<Rightarrow>
     if sessionToken = [] then (Inr (Failure 401 ''UNAUTHORIZED''), w) else
     let body = json_body req;
         playerChallengeId = property body ''playerChallengeId'';
         mime = string_or_empty (property body ''mime'')
     in
     if \<not> validateUuid P playerChallengeId
     then (Inr (Failure 400 ''INVALID_PLAYER_CHALLENGE_ID''), w)
     else if mime = [] \<or> (\<not> startsWith mime ''image/'' \<and> \<not> startsWith mime ''video/'')
     then (Inr (Failure 400 ''INVALID_MIME''), w)
     else
     (case find_session sessionToken w of
        (Inl sessionError, w1) \<Rightarrow> (Inr (Failure 500 sessionError), w1)
      | (Inr None, w1) \<Rightarrow> (Inr (Failure 401 ''UNAUTHORIZED''), w1)
      | (Inr (Some session), w1) \<Rightarrow>
     (case playerChallengeId of
        Some (JStr idString) \<Rightarrow>
     (case find_challenge (trim idString) w1 of
        (Inl pcError, w2) \<Rightarrow> (Inr (Failure 500 pcError), w2)
      | (Inr None, w2) \<Rightarrow> (Inr (Failure 403 ''NOT_ALLOWED''), w2)
      | (Inr (Some pc), w2) \<Rightarrow>
     if pc_player_id pc \<noteq> session_player_id session
     then (Inr (Failure 403 ''NOT_ALLOWED''), w2)
     else
     (case toISOString P (pc_block_start pc) of
        None \<Rightarrow> (Inl ''RangeError'', w2)
      | Some blockStartIso \<Rightarrow>
     let path = session_player_id session @ ''/'' @ blockStartIso @ ''/'' @ pc_id pc
                  @ extFromMime mime
     in
     (case create_signed_upload_url BUCKET path True w2 of
        (Inl error, w3) \<Rightarrow> (Inr (FailureHint 500 error bucket_hint), w3)
      | (Inr data, w3) \<Rightarrow>
          (Inr (OkUpload (su_path data) (su_token data) (su_signedUrl data)), w3))))
      | _ \<Rightarrow> (Inl ''TypeError'', w1))))"

subsection \<open>Ending a room\<close>

text \<open>
  \<open>POST\<close> of \<open>rooms/end\<close>: the token's presence, the room code, the session row, the
  player row, the room by its code, that it is the player's room, the membership row for
  that room and player (an error of this lookup is dropped, leaving no row), and the
  update, which the handler makes whatever the room's status is.
\<close>

definition end_POST :: "platform \<Rightarrow> request \<Rightarrow> world \<Rightarrow> outcome \<times> world" where
  "end_POST P req w =
     (case readSessionTokenFromRequest P req of
        None \<Rightarrow> (Inr (Failure 401 ''UNAUTHORIZED''), w)
      | Some sessionToken \<Rightarrow>
     if sessionToken = [] then (Inr (Failure 401 ''UNAUTHORIZED''), w) else
     let body = json_body req;
         code = property body ''code''
     in
     if \<not> validateRoomCode P code then (Inr (Failure 400 ''INVALID_ROOM_CODE''), w)
     else
     (case find_session sessionToken w of
        (Inl sessionError, w1) \<Rightarrow> (Inr (Failure 500 sessionError), w1)
      | (Inr None, w1) \<Rightarrow> (Inr (Failure 401 ''UNAUTHORIZED''), w1)
      | (Inr (Some session), w1) \<Rightarrow>
     (case find_player (session_player_id session) w1 of
        (Inl playerError, w2) \<Rightarrow> (Inr (Failure 500 playerError), w2)
      | (Inr None, w2) \<Rightarrow> (Inr (Failure 401 ''UNAUTHORIZED''), w2)
      | (Inr (Some player), w2) \<Rightarrow>
     (case find_room (filter_value code) w2 of
        (Inl roomError, w3) \<Rightarrow> (Inr (Failure 500 roomError), w3)
      | (Inr None, w3) \<Rightarrow> (Inr (Failure 404 ''ROOM_NOT_FOUND''), w3)
      | (Inr (Some room), w3) \<Rightarrow>
     if room_id room \<noteq> player_room_id player
     then (Inr (Failure 403 ''NOT_ALLOWED''), w3)
     else
     (case find_member (room_id room) (player_id player) w3 of (found, w4) \<Rightarrow>
     let member = (case found of Inl memberError \<Rightarrow> None | Inr m \<Rightarrow> m);
         role = (case member of None \<Rightarrow> [] | Some m \<Rightarrow> member_role m)
     in
     if role \<noteq> ''owner'' then (Inr (Failure 403 ''NOT_ALLOWED''), w4)
     else
     let nowIso = clock w4 in
     (case update_room_ended (room_id room) nowIso w4 of
        (Some updateError, w5) \<Rightarrow> (Inr (Failure 500 updateError), w5)
      | (None, w5) \<Rightarrow> (Inr (OkEnded nowIso), w5)))))))"

section \<open>Vocabulary of the properties\<close>

text \<open>A mime string declares the image or video media family.\<close>

definition declares_media_family :: "string \<Rightarrow> bool" where
  "declares_media_family mime = (startsWith mime ''image/'' \<or> startsWith mime ''video/'')"

text \<open>The five tables of a world, without the log, the clock and the scheduled outcomes.\<close>

definition tables ::
  "world \<Rightarrow> session_row list \<times> player_row list \<times> room_row list \<times> member_row list
     \<times> challenge_row list" where
  "tables w = (player_sessions w, players w, rooms w, room_members w, player_challenges w)"

text \<open>The request carries a session token: the reader gives a non-empty string.\<close>

definition carries_token :: "platform \<Rightarrow> request \<Rightarrow> string \<Rightarrow> bool" where
  "carries_token P req tok = (readSessionTokenFromRequest P req = Some tok \<and> tok \<noteq> [])"

definition no_token :: "platform \<Rightarrow> request \<Rightarrow> bool" where
  "no_token P req =
     (readSessionTokenFromRequest P req = None \<or> readSessionTokenFromRequest P req = Some [])"

text \<open>The fields a handler reads from the body.\<close>

definition body_id :: "request \<Rightarrow> json option" where
  "body_id req = property (json_body req) ''playerChallengeId''"

definition body_path :: "request \<Rightarrow> string" where
  "body_path req = string_or_empty (property (json_body req) ''path'')"

definition body_mime :: "request \<Rightarrow> string" where
  "body_mime req = string_or_empty (property (json_body req) ''mime'')"

definition body_code :: "request \<Rightarrow> json option" where
  "body_code req = property (json_body req) ''code''"

text \<open>
  The family and subtype of a mime string: the first two of its segments between slashes.
\<close>

definition family_subtype :: "string \<Rightarrow> string list" where
  "family_subtype mime = take 2 (js_split CHR ''/'' mime)"

section \<open>A sample platform and world\<close>

text \<open>
  An instance of the helpers for running the handlers on concrete requests: the token is
  read from the header \<open>x-session-token\<close>, an id is valid when it is a string whose trimmed
  form has the shape 8-4-4-4-12 of hexadecimal digits, a room code when it is a string of
  four to eight capital letters and digits; a timestamp already in the form
  \<open>YYYY-MM-DDTHH:MM:SS.mmmZ\<close> is its own ISO string.
\<close>

definition hex_digit :: "char \<Rightarrow> bool" where
  "hex_digit c = (c \<in> set ''0123456789abcdefABCDEF'')"

definition uuid_shape :: "string \<Rightarrow> bool" where
  "uuid_shape s =
     (map (\<lambda>c. if c = CHR ''-'' then CHR ''-'' else if hex_digit c then CHR ''x'' else CHR ''?'') s
        = ''xxxxxxxx-xxxx-xxxx-xxxx-xxxxxxxxxxxx'')"

definition room_code_shape :: "string \<Rightarrow> bool" where
  "room_code_shape s =
     (4 \<le> length s \<and> length s \<le> 8 \<and>
      list_all (\<lambda>c. c \<in> set ''ABCDEFGHIJKLMNOPQRSTUVWXYZ0123456789'') s)"

definition sample_platform :: platform where
  "sample_platform =
     \<lparr>readSessionTokenFromRequest = (\<lambda>req. map_of (headers req) ''x-session-token''),
      validateUuid = (\<lambda>v. case v of Some (JStr s) \<Rightarrow> uuid_shape (trim s) | _ \<Rightarrow> False),
      validateRoomCode = (\<lambda>v. case v of Some (JStr s) \<Rightarrow> room_code_shape s | _ \<Rightarrow> False),
      toISOString = (\<lambda>s. if length s = 24 \<and> last s = CHR ''Z'' then Some s else None),
      getPublicUrl = (\<lambda>bucket p. ''https://storage.example/object/public/'' @ bucket @ ''/'' @ p)\<rparr>"

definition challenge_1 :: string where
  "challenge_1 = ''11111111-1111-4111-8111-111111111111''"

definition challenge_2 :: string where
  "challenge_2 = ''22222222-2222-4222-8222-222222222222''"

text \<open>
  Alice owns room ABCD (in the lobby), where Bob is a member; Carol owns room WXYZ
  (active). Alice's challenge already has an image; Bob's has none.
\<close>

definition sample_world :: world where
  "sample_world =
     \<lparr>player_sessions =
        [\<lparr>session_token = ''tok-alice'', session_player_id = ''alice''\<rparr>,
         \<lparr>session_token = ''tok-bob'', session_player_id = ''bob''\<rparr>,
         \<lparr>session_token = ''tok-carol'', session_player_id = ''carol''\<rparr>],
      players =
        [\<lparr>player_id = ''alice'', player_room_id = ''room-1''\<rparr>,
         \<lparr>player_id = ''bob'', player_room_id = ''room-1''\<rparr>,
         \<lparr>player_id = ''carol'', player_room_id = ''room-2''\<rparr>],
      rooms =
        [\<lparr>room_id = ''room-1'', room_code = ''ABCD'', room_status = ''lobby'',
          room_ends_at = None\<rparr>,
         \<lparr>room_id = ''room-2'', room_code = ''WXYZ'', room_status = ''active'',
          room_ends_at = Some ''2024-05-01T12:00:00.000Z''\<rparr>],
      room_members =
        [\<lparr>member_room_id = ''room-1'', member_player_id = ''alice'', member_role = ''owner''\<rparr>,
         \<lparr>member_room_id = ''room-1'', member_player_id = ''bob'', member_role = ''member''\<rparr>,
         \<lparr>member_room_id = ''room-2'', member_player_id = ''carol'', member_role = ''owner''\<rparr>],
      player_challenges =
        [\<lparr>pc_id = challenge_1, pc_player_id = ''alice'',
          pc_block_start = ''2024-05-01T10:00:00.000Z'',
          media_url = Some ''https://storage.example/object/public/retos/alice/old.png'',
          media_type = Some ''image'', media_mime = Some ''image/png'',
          media_uploaded_at = Some ''2024-05-01T10:05:00.000Z''\<rparr>,
         \<lparr>pc_id = challenge_2, pc_player_id = ''bob'',
          pc_block_start = ''2024-05-01T10:00:00.000Z'',
          media_url = None, media_type = None, media_mime = None,
          media_uploaded_at = None\<rparr>],
      faults = [],
      storage_sign = (\<lambda>bucket p upsert.
        Inr \<lparr>su_path = p, su_token = ''credential'',
             su_signedUrl = ''https://storage.example/object/upload/sign/'' @ bucket @ ''/'' @ p\<rparr>),
      clock = ''2024-05-01T10:20:30.000Z'',
      calls = []\<rparr>"

definition upload_request :: "string option \<Rightarrow> (string \<times> json) list \<Rightarrow> request" where
  "upload_request tok kvs =
     \<lparr>headers = (case tok of None \<Rightarrow> [] | Some t \<Rightarrow> [(''x-session-token'', t)]),
      json_body = Some (JObj kvs)\<rparr>"

definition end_request :: "string \<Rightarrow> string \<Rightarrow> request" where
  "end_request tok c =
     \<lparr>headers = [(''x-session-token'', tok)], json_body = Some (JObj [(''code'', JStr c)])\<rparr>"

definition commit_request :: "string \<Rightarrow> string \<Rightarrow> string \<Rightarrow> string \<Rightarrow> request" where
  "commit_request tok cid p mime =
     upload_request (Some tok)
       [(''playerChallengeId'', JStr cid), (''path'', JStr p), (''mime'', JStr mime)]"

definition reserve_request :: "string \<Rightarrow> string \<Rightarrow> string \<Rightarrow> request" where
  "reserve_request tok cid mime =
     upload_request (Some tok) [(''playerChallengeId'', JStr cid), (''mime'', JStr mime)]"

definition alice_session :: session_row where
  "alice_session = \<lparr>session_token = ''tok-alice'', session_player_id = ''alice''\<rparr>"

text \<open>An id of the right shape that no challenge has.\<close>

definition challenge_9 :: string where
  "challenge_9 = ''99999999-9999-4999-8999-999999999999''"

text \<open>The sample world after Alice has ended her room, forty minutes later.\<close>

definition ended_world :: world where
  "ended_world =
     (snd (end_POST sample_platform (end_request ''tok-alice'' ''ABCD'') sample_world))
       \<lparr>clock := ''2024-05-01T11:00:00.000Z''\<rparr>"

text \<open>
  A request with a token that no session has, and a body that is valid for each of the
  three handlers.
\<close>

definition stranger_request :: request where
  "stranger_request =
     upload_request (Some ''tok-nobody'')
       [(''playerChallengeId'', JStr challenge_1), (''path'', JStr ''alice/x.png''),
        (''mime'', JStr ''image/png''), (''code'', JStr ''ABCD'')]"

text \<open>
  The path that a reserve derives for Alice's challenge and the mime \<open>image/png\<close>, a
  path under Alice's prefix that no reserve derives, and the public URL of a video.
\<close>

definition png_path :: string where
  "png_path = ''alice/2024-05-01T10:00:00.000Z/11111111-1111-4111-8111-111111111111.png''"

definition odd_path :: string where
  "odd_path = ''alice/../bob/not-the-reserved-shape.exe''"

definition mp4_url :: string where
  "mp4_url = ''https://storage.example/object/public/retos/alice/clip.mp4''"



section \<open>Lemmas on the store operations\<close>

lemma pair_fst_snd: "fst p = a \<Longrightarrow> p = (a, snd p)"
  by (cases p) simp

lemma maybeSingle_Some: "maybeSingle xs = Inr (Some r) \<Longrightarrow> xs = [r]"
  by (cases xs rule: maybeSingle.cases) auto

lemma filter_single: "filter m rows = [r] \<Longrightarrow> r \<in> set rows \<and> m r"
proof -
  assume h: "filter m rows = [r]"
  have "r \<in> set (filter m rows)" by (simp add: h)
  then show ?thesis by simp
qed

lemma select_world:
  "select_maybeSingle t e rows m w = (res, w') \<Longrightarrow>
     w' = w\<lparr>faults := tl (faults w), calls := calls w @ [Select t e]\<rparr>"
  by (auto simp: select_maybeSingle_def store_call_def split: option.splits)

lemma select_found:
  "select_maybeSingle t e rows m w = (Inr (Some r), w') \<Longrightarrow> filter m rows = [r]"
  by (auto simp: select_maybeSingle_def store_call_def split: option.splits
      dest: maybeSingle_Some)

lemma find_tables:
  "find_session tok w = (r1, w') \<Longrightarrow> tables w' = tables w"
  "find_challenge k w = (r2, w') \<Longrightarrow> tables w' = tables w"
  "find_player pid w = (r3, w') \<Longrightarrow> tables w' = tables w"
  "find_room c w = (r4, w') \<Longrightarrow> tables w' = tables w"
  "find_member rid pid w = (r5, w') \<Longrightarrow> tables w' = tables w"
  unfolding find_session_def find_challenge_def find_player_def find_room_def find_member_def
  by (auto dest!: select_world simp: tables_def)

lemmas body_defs = carries_token_def no_token_def body_id_def body_path_def body_mime_def body_code_def

lemma find_world:
  "find_session tok w = (r1, w') \<Longrightarrow>
     w' = w\<lparr>faults := tl (faults w),
            calls := calls w @ [Select ''player_sessions'' [(''session_token'', tok)]]\<rparr>"
  "find_challenge k w = (r2, w') \<Longrightarrow>
     w' = w\<lparr>faults := tl (faults w),
            calls := calls w @ [Select ''player_challenges'' [(''id'', k)]]\<rparr>"
  "find_player pid w = (r3, w') \<Longrightarrow>
     w' = w\<lparr>faults := tl (faults w), calls := calls w @ [Select ''players'' [(''id'', pid)]]\<rparr>"
  "find_room c w = (r4, w') \<Longrightarrow>
     w' = w\<lparr>faults := tl (faults w), calls := calls w @ [Select ''rooms'' [(''code'', c)]]\<rparr>"
  "find_member rid pid w = (r5, w') \<Longrightarrow>
     w' = w\<lparr>faults := tl (faults w),
            calls := calls w @ [Select ''room_members'' [(''room_id'', rid), (''player_id'', pid)]]\<rparr>"
  unfolding find_session_def find_challenge_def find_player_def find_room_def find_member_def
  by (rule select_world, assumption)+

lemma find_found:
  "find_session tok w = (Inr (Some s), w') \<Longrightarrow> [x \<leftarrow> player_sessions w. session_token x = tok] = [s]"
  "find_challenge k w = (Inr (Some pc), w') \<Longrightarrow> [x \<leftarrow> player_challenges w. pc_id x = k] = [pc]"
  "find_player pid w = (Inr (Some p), w') \<Longrightarrow> [x \<leftarrow> players w. player_id x = pid] = [p]"
  "find_room c w = (Inr (Some r), w') \<Longrightarrow> [x \<leftarrow> rooms w. room_code x = c] = [r]"
  "find_member rid pid w = (Inr (Some m), w') \<Longrightarrow>
     [x \<leftarrow> room_members w. member_room_id x = rid \<and> member_player_id x = pid] = [m]"
  unfolding find_session_def find_challenge_def find_player_def find_room_def find_member_def
  by (rule select_found, assumption)+

lemma find_clock:
  "find_session tok w = (r1, w') \<Longrightarrow> clock w' = clock w"
  "find_challenge k w = (r2, w') \<Longrightarrow> clock w' = clock w"
  "find_player pid w = (r3, w') \<Longrightarrow> clock w' = clock w"
  "find_room c w = (r4, w') \<Longrightarrow> clock w' = clock w"
  "find_member rid pid w = (r5, w') \<Longrightarrow> clock w' = clock w"
  by (auto dest!: find_world)

text \<open>The mime test of both upload handlers is the test for a declared media family.\<close>

lemma mime_check:
  "(mime = [] \<or> (\<not> startsWith mime ''image/'' \<and> \<not> startsWith mime ''video/''))
     = (\<not> declares_media_family mime)"
  by (auto simp: declares_media_family_def startsWith_def)

section \<open>Lemmas on splitting and on the extension\<close>

lemma js_split_nonempty: "js_split sep s \<noteq> []"
  by (cases s) auto

lemma js_split_length: "2 \<le> length (js_split sep s) \<longleftrightarrow> sep \<in> set s"
proof (induction s)
  case Nil
  then show ?case by simp
next
  case (Cons c cs)
  have "Suc 0 \<le> length (js_split sep cs)" by (cases cs) auto
  with Cons show ?case by (auto simp: js_split_nonempty)
qed

lemma startsWith_split:
  "sep \<notin> set f \<Longrightarrow>
     startsWith s (f @ [sep]) \<longleftrightarrow> (hd (js_split sep s) = f \<and> 2 \<le> length (js_split sep s))"
proof (induction s arbitrary: f)
  case Nil
  then show ?case by (simp add: startsWith_def)
next
  case (Cons c cs)
  show ?case
  proof (cases f)
    case Nil
    then show ?thesis
      using js_split_nonempty [of sep cs] js_split_length [of sep cs]
      by (auto simp: startsWith_def Suc_le_eq)
  next
    case (Cons x f')
    with Cons.prems have "sep \<notin> set f'" "x \<noteq> sep" by auto
    with Cons.IH [of f'] Cons show ?thesis
      using js_split_nonempty [of sep cs]
      by (auto simp: startsWith_def)
  qed
qed


lemma js_split_segments: "x \<in> set (js_split sep s) \<Longrightarrow> sep \<notin> set x"
proof (induction s arbitrary: x)
  case Nil
  then show ?case by simp
next
  case (Cons c cs)
  have ne: "js_split sep cs \<noteq> []" by (rule js_split_nonempty)
  show ?case
  proof (cases "c = sep")
    case True
    with Cons show ?thesis by auto
  next
    case False
    from Cons.prems False
    have "x = c # hd (js_split sep cs) \<or> x \<in> set (tl (js_split sep cs))" by simp
    then show ?thesis
    proof
      assume "x = c # hd (js_split sep cs)"
      moreover have "sep \<notin> set (hd (js_split sep cs))"
        using Cons.IH [of "hd (js_split sep cs)"] ne by simp
      ultimately show ?thesis using False by simp
    next
      assume "x \<in> set (tl (js_split sep cs))"
      then have "x \<in> set (js_split sep cs)" using ne by (meson list.set_sel(2))
      then show ?thesis by (rule Cons.IH)
    qed
  qed
qed

lemma family_subtype_cases:
  obtains a where "js_split CHR ''/'' m = [a]" "family_subtype m = [a]"
  | a b rest where "js_split CHR ''/'' m = a # b # rest" "family_subtype m = [a, b]"
proof (cases "js_split CHR ''/'' m")
  case Nil
  then show ?thesis using js_split_nonempty by blast
next
  case (Cons a as)
  then show ?thesis
    by (cases as) (auto simp: family_subtype_def intro: that)
qed

lemma startsWith_family:
  "startsWith m ''image/'' \<longleftrightarrow>
     (hd (js_split CHR ''/'' m) = ''image'' \<and> 2 \<le> length (js_split CHR ''/'' m))"
  "startsWith m ''video/'' \<longleftrightarrow>
     (hd (js_split CHR ''/'' m) = ''video'' \<and> 2 \<le> length (js_split CHR ''/'' m))"
  using startsWith_split [of "CHR ''/''" "''image''" m]
    startsWith_split [of "CHR ''/''" "''video''" m]
  by simp_all

lemma extFromMime_family_subtype:
  "extFromMime m =
     (case family_subtype m of
        [f, sub] \<Rightarrow>
          if f = ''image'' then (if sub \<noteq> [] then ''.'' @ sub else ''.jpg'')
          else if f = ''video'' then (if sub \<noteq> [] then ''.'' @ sub else ''.mp4'')
          else []
      | _ \<Rightarrow> [])"
proof (cases m rule: family_subtype_cases)
  case (1 a)
  then show ?thesis
    by (simp add: extFromMime_def startsWith_family)
next
  case (2 a b rest)
  then show ?thesis
    by (simp add: extFromMime_def startsWith_family js_index_def)
qed

lemma extFromMime_no_slash: "CHR ''/'' \<notin> set (extFromMime m)"
proof (cases m rule: family_subtype_cases)
  case (1 a)
  then show ?thesis by (simp add: extFromMime_family_subtype)
next
  case (2 a b rest)
  have "b \<in> set (js_split CHR ''/'' m)" using 2 by simp
  then have "CHR ''/'' \<notin> set b" by (rule js_split_segments)
  with 2 show ?thesis by (simp add: extFromMime_family_subtype)
qed


lemma create_signed_world:
  "create_signed_upload_url bucket p u w = (r, w') \<Longrightarrow>
     w' = w\<lparr>calls := calls w @ [CreateSignedUploadUrl bucket p u]\<rparr>"
  by (auto simp: create_signed_upload_url_def)

section \<open>What a success of each handler went through\<close>

lemma reserve_success_inv:
  assumes "reserve_POST P req w = (Inr (OkUpload a b c), w')"
  shows "\<exists>tok s w1 cid pc w2 iso d.
           carries_token P req tok \<and> validateUuid P (body_id req)
         \<and> body_id req = Some (JStr cid) \<and> declares_media_family (body_mime req)
         \<and> find_session tok w = (Inr (Some s), w1)
         \<and> find_challenge (trim cid) w1 = (Inr (Some pc), w2)
         \<and> pc_player_id pc = session_player_id s
         \<and> toISOString P (pc_block_start pc) = Some iso
         \<and> create_signed_upload_url BUCKET
              (session_player_id s @ ''/'' @ iso @ ''/'' @ pc_id pc @ extFromMime (body_mime req))
              True w2 = (Inr d, w')
         \<and> a = su_path d \<and> b = su_token d \<and> c = su_signedUrl d"
  using assms
  by (auto simp: reserve_POST_def Let_def carries_token_def body_id_def body_mime_def mime_check
      split: option.splits if_splits prod.splits sum.splits json.splits)

lemma commit_success_inv:
  assumes "commit_POST P req w = (Inr (OkMedia url mime ty), w')"
  shows "\<exists>tok s w1 cid pc w2.
           carries_token P req tok \<and> validateUuid P (body_id req)
         \<and> body_id req = Some (JStr cid) \<and> body_path req \<noteq> []
         \<and> declares_media_family (body_mime req)
         \<and> find_session tok w = (Inr (Some s), w1)
         \<and> find_challenge (trim cid) w1 = (Inr (Some pc), w2)
         \<and> pc_player_id pc = session_player_id s
         \<and> startsWith (body_path req) (session_player_id s @ ''/'')
         \<and> update_challenge_media (pc_id pc) url ty mime (clock w2) w2 = (None, w')
         \<and> url = getPublicUrl P BUCKET (body_path req)
         \<and> ty = mediaTypeFromMime (body_mime req) \<and> mime = body_mime req"
  using assms
  by (auto simp: commit_POST_def Let_def carries_token_def body_id_def body_mime_def body_path_def
      mime_check split: option.splits if_splits prod.splits sum.splits json.splits)

lemma end_success_inv:
  assumes "end_POST P req w = (Inr (OkEnded t), w')"
  shows "\<exists>tok s w1 p w2 r w3 m w4.
           carries_token P req tok \<and> validateRoomCode P (body_code req)
         \<and> find_session tok w = (Inr (Some s), w1)
         \<and> find_player (session_player_id s) w1 = (Inr (Some p), w2)
         \<and> find_room (filter_value (body_code req)) w2 = (Inr (Some r), w3)
         \<and> room_id r = player_room_id p
         \<and> find_member (room_id r) (player_id p) w3 = (Inr (Some m), w4)
         \<and> member_role m = ''owner''
         \<and> update_room_ended (room_id r) (clock w4) w4 = (None, w')
         \<and> t = clock w4"
  using assms
  by (auto simp: end_POST_def Let_def carries_token_def body_code_def
      split: option.splits if_splits prod.splits sum.splits)

lemma reserve_success_calls:
  assumes "reserve_POST P req w = (Inr (OkUpload a b c), w')"
  shows "\<exists>tok s cid pc iso.
           carries_token P req tok
         \<and> [x \<leftarrow> player_sessions w. session_token x = tok] = [s]
         \<and> body_id req = Some (JStr cid)
         \<and> [x \<leftarrow> player_challenges w. pc_id x = trim cid] = [pc]
         \<and> pc_player_id pc = session_player_id s
         \<and> toISOString P (pc_block_start pc) = Some iso
         \<and> calls w' = calls w @
             [Select ''player_sessions'' [(''session_token'', tok)],
              Select ''player_challenges'' [(''id'', trim cid)],
              CreateSignedUploadUrl BUCKET
                (session_player_id s @ ''/'' @ iso @ ''/'' @ pc_id pc
                   @ extFromMime (body_mime req)) True]
         \<and> tables w' = tables w"
proof -
  from reserve_success_inv [OF assms]
  obtain tok s ws cid pc wc iso d where h: "carries_token P req tok"
    "body_id req = Some (JStr cid)"
    "find_session tok w = (Inr (Some s), ws)"
    "find_challenge (trim cid) ws = (Inr (Some pc), wc)"
    "pc_player_id pc = session_player_id s"
    "toISOString P (pc_block_start pc) = Some iso"
    "create_signed_upload_url BUCKET
       (session_player_id s @ ''/'' @ iso @ ''/'' @ pc_id pc @ extFromMime (body_mime req))
       True wc = (Inr d, w')"
    by blast
  note ws = find_world(1) [OF h(3)] and wc = find_world(2) [OF h(4)]
    and w' = create_signed_world [OF h(7)]
  have 1: "[x \<leftarrow> player_sessions w. session_token x = tok] = [s]"
    using find_found(1) [OF h(3)] .
  have 2: "[x \<leftarrow> player_challenges w. pc_id x = trim cid] = [pc]"
    using find_found(2) [OF h(4)] by (simp add: ws)
  have 3: "calls w' = calls w @
             [Select ''player_sessions'' [(''session_token'', tok)],
              Select ''player_challenges'' [(''id'', trim cid)],
              CreateSignedUploadUrl BUCKET
                (session_player_id s @ ''/'' @ iso @ ''/'' @ pc_id pc
                   @ extFromMime (body_mime req)) True]"
    by (simp add: w' wc ws)
  have 4: "tables w' = tables w"
    by (simp add: w' wc ws tables_def)
  from h(1,2,5,6) 1 2 3 4 show ?thesis by blast
qed

section \<open>The path check of upload commit\<close>




section \<open>The signals of the ownership checks\<close>

text \<open>
  C2, as the handlers implement it. The upload handlers give one signal, \<open>NOT_ALLOWED\<close>
  (403), both when the challenge does not exist and when it belongs to another player,
  so the two cases are not told apart there; the signal is not a not-found one. The end
  handler tells them apart: a room code that no room has fails \<open>ROOM_NOT_FOUND\<close> (404),
  a room that exists but is not the caller's fails \<open>NOT_ALLOWED\<close> (403).
\<close>

theorem guard_signals:
  "(carries_token P req tok \<and> validateUuid P (body_id req) \<and> body_id req = Some (JStr cid)
      \<and> declares_media_family (body_mime req)
      \<and> find_session tok w = (Inr (Some s), ws)
      \<and> find_challenge (trim cid) ws = (Inr found, wc)
      \<and> (\<forall>pc. found = Some pc \<longrightarrow> pc_player_id pc \<noteq> session_player_id s)
    \<longrightarrow> reserve_POST P req w = (Inr (Failure 403 ''NOT_ALLOWED''), wc)
        \<and> (body_path req \<noteq> [] \<longrightarrow> commit_POST P req w = (Inr (Failure 403 ''NOT_ALLOWED''), wc)))
   \<and> (carries_token P req' tok' \<and> validateRoomCode P (body_code req')
      \<and> find_session tok' v = (Inr (Some s'), vs)
      \<and> find_player (session_player_id s') vs = (Inr (Some p), vp)
      \<and> find_room (filter_value (body_code req')) vp = (Inr found', vr)
    \<longrightarrow> (found' = None \<longrightarrow> end_POST P req' v = (Inr (Failure 404 ''ROOM_NOT_FOUND''), vr))
        \<and> (\<forall>r. found' = Some r \<and> room_id r \<noteq> player_room_id p
              \<longrightarrow> end_POST P req' v = (Inr (Failure 403 ''NOT_ALLOWED''), vr)))"
proof (intro conjI impI allI; (elim conjE)?)
  show "reserve_POST P req w = (Inr (Failure 403 ''NOT_ALLOWED''), wc)"
    if "carries_token P req tok" "validateUuid P (body_id req)" "body_id req = Some (JStr cid)"
      "declares_media_family (body_mime req)" "find_session tok w = (Inr (Some s), ws)"
      "find_challenge (trim cid) ws = (Inr found, wc)"
      "\<forall>pc. found = Some pc \<longrightarrow> pc_player_id pc \<noteq> session_player_id s"
    using that by (cases found) (simp_all add: reserve_POST_def body_defs mime_check Let_def)
  show "commit_POST P req w = (Inr (Failure 403 ''NOT_ALLOWED''), wc)"
    if "carries_token P req tok" "validateUuid P (body_id req)" "body_id req = Some (JStr cid)"
      "declares_media_family (body_mime req)" "find_session tok w = (Inr (Some s), ws)"
      "find_challenge (trim cid) ws = (Inr found, wc)"
      "\<forall>pc. found = Some pc \<longrightarrow> pc_player_id pc \<noteq> session_player_id s"
      "body_path req \<noteq> []"
    using that by (cases found) (simp_all add: commit_POST_def body_defs mime_check Let_def)
  show "end_POST P req' v = (Inr (Failure 404 ''ROOM_NOT_FOUND''), vr)"
    if "carries_token P req' tok'" "validateRoomCode P (body_code req')"
      "find_session tok' v = (Inr (Some s'), vs)"
      "find_player (session_player_id s') vs = (Inr (Some p), vp)"
      "find_room (filter_value (body_code req')) vp = (Inr found', vr)" "found' = None"
    using that by (simp add: end_POST_def body_defs Let_def)
  show "end_POST P req' v = (Inr (Failure 403 ''NOT_ALLOWED''), vr)"
    if "carries_token P req' tok'" "validateRoomCode P (body_code req')"
      "find_session tok' v = (Inr (Some s'), vs)"
      "find_player (session_player_id s') vs = (Inr (Some p), vp)"
      "find_room (filter_value (body_code req')) vp = (Inr found', vr)"
      "found' = Some r" "room_id r \<noteq> player_room_id p" for r
    using that by (simp add: end_POST_def body_defs Let_def)
qed

text \<open>
  Alice asks for Bob's challenge and for a challenge that does not exist, and tries to end
  Carol's room and a room that does not exist.
\<close>

theorem guard_signals_witness:
  "fst (reserve_POST sample_platform
          (commit_request ''tok-alice'' challenge_2 ''alice/x.png'' ''image/png'') sample_world)
     = Inr (Failure 403 ''NOT_ALLOWED'')
   \<and> fst (commit_POST sample_platform
          (commit_request ''tok-alice'' challenge_2 ''alice/x.png'' ''image/png'') sample_world)
     = Inr (Failure 403 ''NOT_ALLOWED'')
   \<and> fst (reserve_POST sample_platform
          (commit_request ''tok-alice'' challenge_9 ''alice/x.png'' ''image/png'') sample_world)
     = Inr (Failure 403 ''NOT_ALLOWED'')
   \<and> fst (commit_POST sample_platform
          (commit_request ''tok-alice'' challenge_9 ''alice/x.png'' ''image/png'') sample_world)
     = Inr (Failure 403 ''NOT_ALLOWED'')
   \<and> fst (end_POST sample_platform (end_request ''tok-alice'' ''WXYZ'') sample_world)
     = Inr (Failure 403 ''NOT_ALLOWED'')
   \<and> fst (end_POST sample_platform (end_request ''tok-alice'' ''QQQQ'') sample_world)
     = Inr (Failure 404 ''ROOM_NOT_FOUND'')"
proof -
  let ?SP = sample_platform and ?A0 = sample_world
  let ?U2 = "commit_request ''tok-alice'' challenge_2 ''alice/x.png'' ''image/png''"
  let ?U9 = "commit_request ''tok-alice'' challenge_9 ''alice/x.png'' ''image/png''"
  let ?EW = "end_request ''tok-alice'' ''WXYZ''"
  let ?EQ = "end_request ''tok-alice'' ''QQQQ''"
  let ?A1 = "snd (find_session ''tok-alice'' ?A0)"
  let ?A2 = "snd (find_player (session_player_id alice_session) ?A1)"
  have s: "find_session ''tok-alice'' ?A0 = (Inr (Some alice_session), ?A1)"
    by (rule pair_fst_snd) code_simp
  have u2: "carries_token ?SP ?U2 ''tok-alice''" "validateUuid ?SP (body_id ?U2)"
    "body_id ?U2 = Some (JStr challenge_2)" "declares_media_family (body_mime ?U2)"
    "body_path ?U2 \<noteq> []"
    by code_simp+
  have u9: "carries_token ?SP ?U9 ''tok-alice''" "validateUuid ?SP (body_id ?U9)"
    "body_id ?U9 = Some (JStr challenge_9)" "declares_media_family (body_mime ?U9)"
    "body_path ?U9 \<noteq> []"
    by code_simp+
  have c2: "find_challenge (trim challenge_2) ?A1
              = (Inr (Some (player_challenges ?A0 ! 1)), snd (find_challenge (trim challenge_2) ?A1))"
    by (rule pair_fst_snd) code_simp
  have o2: "\<forall>pc. Some (player_challenges ?A0 ! 1) = Some pc
              \<longrightarrow> pc_player_id pc \<noteq> session_player_id alice_session"
  proof -
    have "pc_player_id (player_challenges ?A0 ! 1) \<noteq> session_player_id alice_session"
      by code_simp
    then show ?thesis by simp
  qed
  have c9: "find_challenge (trim challenge_9) ?A1
              = (Inr None, snd (find_challenge (trim challenge_9) ?A1))"
    by (rule pair_fst_snd) code_simp
  have ew: "carries_token ?SP ?EW ''tok-alice''" "validateRoomCode ?SP (body_code ?EW)"
    by code_simp+
  have eq: "carries_token ?SP ?EQ ''tok-alice''" "validateRoomCode ?SP (body_code ?EQ)"
    by code_simp+
  have p: "find_player (session_player_id alice_session) ?A1 = (Inr (Some (players ?A0 ! 0)), ?A2)"
    by (rule pair_fst_snd) code_simp
  have rw: "find_room (filter_value (body_code ?EW)) ?A2
              = (Inr (Some (rooms ?A0 ! 1)), snd (find_room (filter_value (body_code ?EW)) ?A2))"
    by (rule pair_fst_snd) code_simp
  have rq: "find_room (filter_value (body_code ?EQ)) ?A2
              = (Inr None, snd (find_room (filter_value (body_code ?EQ)) ?A2))"
    by (rule pair_fst_snd) code_simp
  have nw: "room_id (rooms ?A0 ! 1) \<noteq> player_room_id (players ?A0 ! 0)"
    by code_simp
  note T2 = guard_signals [where P = ?SP and req = ?U2 and tok = "''tok-alice''" and w = ?A0
      and cid = challenge_2 and s = alice_session and ws = ?A1
      and found = "Some (player_challenges ?A0 ! 1)"
      and wc = "snd (find_challenge (trim challenge_2) ?A1)"
      and req' = ?EW and tok' = "''tok-alice''" and v = ?A0 and s' = alice_session and vs = ?A1
      and p = "players ?A0 ! 0" and vp = ?A2 and found' = "Some (rooms ?A0 ! 1)"
      and vr = "snd (find_room (filter_value (body_code ?EW)) ?A2)"]
  note T9 = guard_signals [where P = ?SP and req = ?U9 and tok = "''tok-alice''" and w = ?A0
      and cid = challenge_9 and s = alice_session and ws = ?A1
      and found = None
      and wc = "snd (find_challenge (trim challenge_9) ?A1)"
      and req' = ?EQ and tok' = "''tok-alice''" and v = ?A0 and s' = alice_session and vs = ?A1
      and p = "players ?A0 ! 0" and vp = ?A2 and found' = None
      and vr = "snd (find_room (filter_value (body_code ?EQ)) ?A2)"]
  from T2 s u2 c2 o2 ew p rw nw
  have r2: "fst (reserve_POST ?SP ?U2 ?A0) = Inr (Failure 403 ''NOT_ALLOWED'')"
    and m2: "fst (commit_POST ?SP ?U2 ?A0) = Inr (Failure 403 ''NOT_ALLOWED'')"
    and e2: "fst (end_POST ?SP ?EW ?A0) = Inr (Failure 403 ''NOT_ALLOWED'')"
    by simp_all
  from T9 s u9 c9 eq p rq
  have r9: "fst (reserve_POST ?SP ?U9 ?A0) = Inr (Failure 403 ''NOT_ALLOWED'')"
    and m9: "fst (commit_POST ?SP ?U9 ?A0) = Inr (Failure 403 ''NOT_ALLOWED'')"
    and e9: "fst (end_POST ?SP ?EQ ?A0) = Inr (Failure 404 ''ROOM_NOT_FOUND'')"
    by simp_all
  from r2 m2 r9 m9 e2 e9 show ?thesis by blast
qed

text \<open>
  No room has the code QQQQ; room WXYZ exists and is not Alice's. The end handler answers
  the first with 404 and the second with 403, and the commit handler answers a challenge
  that does not exist with \<open>NOT_ALLOWED\<close>.
\<close>

theorem guard_signals_counterexample:
  "fst (end_POST sample_platform (end_request ''tok-alice'' ''QQQQ'') sample_world)
     = Inr (Failure 404 ''ROOM_NOT_FOUND'')
   \<and> fst (end_POST sample_platform (end_request ''tok-alice'' ''WXYZ'') sample_world)
     = Inr (Failure 403 ''NOT_ALLOWED'')
   \<and> map room_code (rooms sample_world) = [''ABCD'', ''WXYZ'']
   \<and> map room_id (rooms sample_world) = [''room-1'', ''room-2'']
   \<and> map player_id (players sample_world) = [''alice'', ''bob'', ''carol'']
   \<and> map player_room_id (players sample_world) = [''room-1'', ''room-1'', ''room-2'']
   \<and> map pc_id (player_challenges sample_world) = [challenge_1, challenge_2]
   \<and> trim challenge_9 \<noteq> challenge_1 \<and> trim challenge_9 \<noteq> challenge_2
   \<and> fst (commit_POST sample_platform
            (commit_request ''tok-alice'' challenge_9 ''alice/x.png'' ''image/png'') sample_world)
       = Inr (Failure 403 ''NOT_ALLOWED'')"
  by code_simp

section \<open>Ending a room from any status\<close>

text \<open>
  C3, as the handler implements it. When the owner of a room calls end and the store
  answers, the response is a success carrying the current time, and every row of that
  room gets \<open>status = ended\<close> and \<open>ends_at = now\<close>, whatever its status was: the
  handler does not read the status. From the lobby the room becomes ended; on an ended
  room \<open>ends_at\<close> is overwritten with the new time. The rows of other rooms are unchanged.
\<close>

theorem end_sets_ended_from_any_status:
  assumes "carries_token P req tok"
    and "validateRoomCode P (body_code req)"
    and "find_session tok w = (Inr (Some s), ws)"
    and "find_player (session_player_id s) ws = (Inr (Some p), wp)"
    and "find_room (filter_value (body_code req)) wp = (Inr (Some r), wr)"
    and "room_id r = player_room_id p"
    and "find_member (room_id r) (player_id p) wr = (Inr (Some m), wm)"
    and "member_role m = ''owner''"
    and "next_fault wm = None"
  shows "fst (end_POST P req w) = Inr (OkEnded (clock w))
       \<and> rooms (snd (end_POST P req w))
           = map (\<lambda>x. if room_id x = room_id r
                       then x\<lparr>room_status := ''ended'', room_ends_at := Some (clock w)\<rparr>
                       else x) (rooms w)
       \<and> r\<lparr>room_status := ''ended'', room_ends_at := Some (clock w)\<rparr>
           \<in> set (rooms (snd (end_POST P req w)))"
proof -
  have ck: "clock wm = clock w"
    using assms(3,4,5,7) by (simp add: find_clock)
  have tb: "rooms wm = rooms w"
    using find_tables(1) [OF assms(3)] find_tables(3) [OF assms(4)] find_tables(4) [OF assms(5)]
      find_tables(5) [OF assms(7)]
    by (simp add: tables_def)
  have run: "end_POST P req w = (Inr (OkEnded (clock wm)), snd (update_room_ended (room_id r) (clock wm) wm))"
    using assms
    by (simp add: end_POST_def body_defs Let_def update_room_ended_def store_call_def)
  have upd: "rooms (snd (update_room_ended (room_id r) (clock wm) wm))
           = map (\<lambda>x. if room_id x = room_id r
                       then x\<lparr>room_status := ''ended'', room_ends_at := Some (clock wm)\<rparr>
                       else x) (rooms wm)"
    using assms(9) by (simp add: update_room_ended_def store_call_def)
  have mem: "r \<in> set (rooms w)"
    using find_found(4) [OF assms(5)] find_tables(1) [OF assms(3)] find_tables(3) [OF assms(4)]
    by (auto dest!: filter_single simp: tables_def)
  show ?thesis
    using run upd mem by (auto simp: ck tb image_iff intro!: bexI [of _ r])
qed

text \<open>Alice ends her room, which is in the lobby.\<close>

theorem end_sets_ended_from_any_status_witness:
  "room_status (rooms sample_world ! 0) = ''lobby''
   \<and> member_role (room_members sample_world ! 0) = ''owner''
   \<and> fst (end_POST sample_platform (end_request ''tok-alice'' ''ABCD'') sample_world)
       = Inr (OkEnded (clock sample_world))
   \<and> (rooms sample_world ! 0)\<lparr>room_status := ''ended'',
                                room_ends_at := Some (clock sample_world)\<rparr>
       \<in> set (rooms (snd (end_POST sample_platform (end_request ''tok-alice'' ''ABCD'')
                             sample_world)))"
proof -
  let ?SP = sample_platform and ?A0 = sample_world
  let ?E = "end_request ''tok-alice'' ''ABCD''"
  let ?A1 = "snd (find_session ''tok-alice'' ?A0)"
  let ?A2 = "snd (find_player (session_player_id alice_session) ?A1)"
  let ?A3 = "snd (find_room (filter_value (body_code ?E)) ?A2)"
  let ?r = "rooms ?A0 ! 0" and ?p = "players ?A0 ! 0" and ?m = "room_members ?A0 ! 0"
  let ?A4 = "snd (find_member (room_id ?r) (player_id ?p) ?A3)"
  have a1: "carries_token ?SP ?E ''tok-alice''" by code_simp
  have a2: "validateRoomCode ?SP (body_code ?E)" by code_simp
  have a3: "find_session ''tok-alice'' ?A0 = (Inr (Some alice_session), ?A1)"
    by (rule pair_fst_snd) code_simp
  have a4: "find_player (session_player_id alice_session) ?A1 = (Inr (Some ?p), ?A2)"
    by (rule pair_fst_snd) code_simp
  have a5: "find_room (filter_value (body_code ?E)) ?A2 = (Inr (Some ?r), ?A3)"
    by (rule pair_fst_snd) code_simp
  have a6: "room_id ?r = player_room_id ?p" by code_simp
  have a7: "find_member (room_id ?r) (player_id ?p) ?A3 = (Inr (Some ?m), ?A4)"
    by (rule pair_fst_snd) code_simp
  have a8: "member_role ?m = ''owner''" by code_simp
  have a9: "next_fault ?A4 = None" by code_simp
  have l: "room_status ?r = ''lobby''" by code_simp
  from end_sets_ended_from_any_status [OF a1 a2 a3 a4 a5 a6 a7 a8 a9] l a8
  show ?thesis by blast
qed

text \<open>
  The room ABCD is in the lobby with no end time; after Alice's call it is ended, with the
  time of the call. A second call forty minutes later moves the end time again.
\<close>

theorem end_sets_ended_counterexample:
  "map room_code (rooms sample_world) = [''ABCD'', ''WXYZ'']
   \<and> map room_status (rooms sample_world) = [''lobby'', ''active'']
   \<and> map room_ends_at (rooms sample_world) = [None, Some ''2024-05-01T12:00:00.000Z'']
   \<and> fst (end_POST sample_platform (end_request ''tok-alice'' ''ABCD'') sample_world)
       = Inr (OkEnded ''2024-05-01T10:20:30.000Z'')
   \<and> map room_status (rooms ended_world) = [''ended'', ''active'']
   \<and> map room_ends_at (rooms ended_world)
       = [Some ''2024-05-01T10:20:30.000Z'', Some ''2024-05-01T12:00:00.000Z'']
   \<and> fst (end_POST sample_platform (end_request ''tok-alice'' ''ABCD'') ended_world)
       = Inr (OkEnded ''2024-05-01T11:00:00.000Z'')
   \<and> map room_ends_at
         (rooms (snd (end_POST sample_platform (end_request ''tok-alice'' ''ABCD'') ended_world)))
       = [Some ''2024-05-01T11:00:00.000Z'', Some ''2024-05-01T12:00:00.000Z'']"
  by code_simp

section \<open>Requests without a session\<close>

text \<open>
  C6, as the handlers implement it. A request that carries no session token is answered
  \<open>UNAUTHORIZED\<close> (401) by upload-reserve, upload-commit and end, whatever its body, with
  no call to the store. A request whose token no session row has, when the store answers
  the lookup, is answered by the first input check that its body fails, since these come
  before the session lookup: \<open>INVALID_PLAYER_CHALLENGE_ID\<close>, then \<open>INVALID_MIME\<close> for
  reserve; \<open>INVALID_PLAYER_CHALLENGE_ID\<close>, then \<open>INVALID_PATH\<close>, then \<open>INVALID_MIME\<close>
  for commit; \<open>INVALID_ROOM_CODE\<close> for end (all 400). Only when the body passes them all
  is the answer \<open>UNAUTHORIZED\<close>. So a missing token and an unknown token get the same
  answer for a body that passes the input checks, and different answers (401 and 400) for
  a body that fails one.
\<close>

theorem unauthorized_signals:
  "(no_token P req
      \<longrightarrow> commit_POST P req w = (Inr (Failure 401 ''UNAUTHORIZED''), w)
        \<and> reserve_POST P req w = (Inr (Failure 401 ''UNAUTHORIZED''), w)
        \<and> end_POST P req w = (Inr (Failure 401 ''UNAUTHORIZED''), w))
   \<and> (carries_token P req tok \<and> next_fault w = None
        \<and> (\<forall>r \<in> set (player_sessions w). session_token r \<noteq> tok)
      \<longrightarrow> fst (reserve_POST P req w)
            = Inr (if \<not> validateUuid P (body_id req)
                   then Failure 400 ''INVALID_PLAYER_CHALLENGE_ID''
                   else if \<not> declares_media_family (body_mime req)
                   then Failure 400 ''INVALID_MIME''
                   else Failure 401 ''UNAUTHORIZED'')
        \<and> fst (commit_POST P req w)
            = Inr (if \<not> validateUuid P (body_id req)
                   then Failure 400 ''INVALID_PLAYER_CHALLENGE_ID''
                   else if body_path req = [] then Failure 400 ''INVALID_PATH''
                   else if \<not> declares_media_family (body_mime req)
                   then Failure 400 ''INVALID_MIME''
                   else Failure 401 ''UNAUTHORIZED'')
        \<and> fst (end_POST P req w)
            = Inr (if \<not> validateRoomCode P (body_code req)
                   then Failure 400 ''INVALID_ROOM_CODE''
                   else Failure 401 ''UNAUTHORIZED''))"
proof -
  have miss: "fst (find_session tok w) = Inr None"
    if "next_fault w = None" "\<forall>r \<in> set (player_sessions w). session_token r \<noteq> tok"
  proof -
    from that(2) have "[r \<leftarrow> player_sessions w. session_token r = tok] = []"
      by (simp add: filter_empty_conv)
    with that(1) show ?thesis
      by (simp add: find_session_def select_maybeSingle_def store_call_def)
  qed
  have found: "\<exists>ws. find_session tok w = (Inr None, ws)"
    if "fst (find_session tok w) = Inr None"
    using that by (cases "find_session tok w") simp
  have r: "fst (reserve_POST P req w)
            = Inr (if \<not> validateUuid P (body_id req)
                   then Failure 400 ''INVALID_PLAYER_CHALLENGE_ID''
                   else if \<not> declares_media_family (body_mime req)
                   then Failure 400 ''INVALID_MIME''
                   else Failure 401 ''UNAUTHORIZED'')"
    if "carries_token P req tok" "fst (find_session tok w) = Inr None"
  proof -
    from found [OF that(2)] obtain ws where "find_session tok w = (Inr None, ws)" ..
    with that(1) show ?thesis
      by (simp add: reserve_POST_def body_defs mime_check Let_def)
  qed
  have c: "fst (commit_POST P req w)
            = Inr (if \<not> validateUuid P (body_id req)
                   then Failure 400 ''INVALID_PLAYER_CHALLENGE_ID''
                   else if body_path req = [] then Failure 400 ''INVALID_PATH''
                   else if \<not> declares_media_family (body_mime req)
                   then Failure 400 ''INVALID_MIME''
                   else Failure 401 ''UNAUTHORIZED'')"
    if "carries_token P req tok" "fst (find_session tok w) = Inr None"
  proof -
    from found [OF that(2)] obtain ws where "find_session tok w = (Inr None, ws)" ..
    with that(1) show ?thesis
      by (simp add: commit_POST_def body_defs mime_check Let_def)
  qed
  have e: "fst (end_POST P req w)
            = Inr (if \<not> validateRoomCode P (body_code req)
                   then Failure 400 ''INVALID_ROOM_CODE''
                   else Failure 401 ''UNAUTHORIZED'')"
    if "carries_token P req tok" "fst (find_session tok w) = Inr None"
  proof -
    from found [OF that(2)] obtain ws where "find_session tok w = (Inr None, ws)" ..
    with that(1) show ?thesis
      by (simp add: end_POST_def body_defs Let_def)
  qed
  have n: "commit_POST P req w = (Inr (Failure 401 ''UNAUTHORIZED''), w)
        \<and> reserve_POST P req w = (Inr (Failure 401 ''UNAUTHORIZED''), w)
        \<and> end_POST P req w = (Inr (Failure 401 ''UNAUTHORIZED''), w)"
    if "no_token P req"
    using that
    by (auto simp: no_token_def commit_POST_def reserve_POST_def end_POST_def)
  from miss r c e n show ?thesis by blast
qed

text \<open>
  A request without a token, one with a token that no session has and a valid body, and
  one with that token and an empty body.
\<close>

theorem unauthorized_signals_witness:
  "no_token sample_platform (upload_request None [])
   \<and> commit_POST sample_platform (upload_request None []) sample_world
       = (Inr (Failure 401 ''UNAUTHORIZED''), sample_world)
   \<and> reserve_POST sample_platform (upload_request None []) sample_world
       = (Inr (Failure 401 ''UNAUTHORIZED''), sample_world)
   \<and> end_POST sample_platform (upload_request None []) sample_world
       = (Inr (Failure 401 ''UNAUTHORIZED''), sample_world)
   \<and> carries_token sample_platform stranger_request ''tok-nobody''
   \<and> [r \<leftarrow> player_sessions sample_world. session_token r = ''tok-nobody''] = []
   \<and> fst (reserve_POST sample_platform stranger_request sample_world)
       = Inr (Failure 401 ''UNAUTHORIZED'')
   \<and> fst (commit_POST sample_platform stranger_request sample_world)
       = Inr (Failure 401 ''UNAUTHORIZED'')
   \<and> fst (end_POST sample_platform stranger_request sample_world)
       = Inr (Failure 401 ''UNAUTHORIZED'')
   \<and> carries_token sample_platform (upload_request (Some ''tok-nobody'') []) ''tok-nobody''
   \<and> fst (reserve_POST sample_platform (upload_request (Some ''tok-nobody'') []) sample_world)
       = Inr (Failure 400 ''INVALID_PLAYER_CHALLENGE_ID'')
   \<and> fst (commit_POST sample_platform (upload_request (Some ''tok-nobody'') []) sample_world)
       = Inr (Failure 400 ''INVALID_PLAYER_CHALLENGE_ID'')
   \<and> fst (end_POST sample_platform (upload_request (Some ''tok-nobody'') []) sample_world)
       = Inr (Failure 400 ''INVALID_ROOM_CODE'')"
proof -
  let ?SP = sample_platform and ?A0 = sample_world
  let ?B = "upload_request (Some ''tok-nobody'') []"
  have n: "no_token ?SP (upload_request None [])" by code_simp
  have c: "carries_token ?SP stranger_request ''tok-nobody''" by code_simp
  have cb: "carries_token ?SP ?B ''tok-nobody''" by code_simp
  have f: "next_fault ?A0 = None" by code_simp
  have e: "[r \<leftarrow> player_sessions ?A0. session_token r = ''tok-nobody''] = []" by code_simp
  then have a: "\<forall>r \<in> set (player_sessions ?A0). session_token r \<noteq> ''tok-nobody''"
    by (simp add: filter_empty_conv)
  have v: "validateUuid ?SP (body_id stranger_request)"
    "declares_media_family (body_mime stranger_request)"
    "body_path stranger_request \<noteq> []"
    "validateRoomCode ?SP (body_code stranger_request)"
    by code_simp+
  have vb: "\<not> validateUuid ?SP (body_id ?B)" "\<not> validateRoomCode ?SP (body_code ?B)"
    by code_simp+
  note T0 = unauthorized_signals [where P = ?SP and req = "upload_request None []" and w = ?A0
      and tok = "''tok-nobody''"]
  note T = unauthorized_signals [where P = ?SP and req = stranger_request and w = ?A0
      and tok = "''tok-nobody''"]
  note TB = unauthorized_signals [where P = ?SP and req = ?B and w = ?A0
      and tok = "''tok-nobody''"]
  from T0 n have p0:
    "commit_POST ?SP (upload_request None []) ?A0 = (Inr (Failure 401 ''UNAUTHORIZED''), ?A0)"
    "reserve_POST ?SP (upload_request None []) ?A0 = (Inr (Failure 401 ''UNAUTHORIZED''), ?A0)"
    "end_POST ?SP (upload_request None []) ?A0 = (Inr (Failure 401 ''UNAUTHORIZED''), ?A0)"
    by blast+
  from T c f a v have p1:
    "fst (reserve_POST ?SP stranger_request ?A0) = Inr (Failure 401 ''UNAUTHORIZED'')"
    "fst (commit_POST ?SP stranger_request ?A0) = Inr (Failure 401 ''UNAUTHORIZED'')"
    "fst (end_POST ?SP stranger_request ?A0) = Inr (Failure 401 ''UNAUTHORIZED'')"
    by simp_all
  from TB cb f a vb have p2:
    "fst (reserve_POST ?SP ?B ?A0) = Inr (Failure 400 ''INVALID_PLAYER_CHALLENGE_ID'')"
    "fst (commit_POST ?SP ?B ?A0) = Inr (Failure 400 ''INVALID_PLAYER_CHALLENGE_ID'')"
    "fst (end_POST ?SP ?B ?A0) = Inr (Failure 400 ''INVALID_ROOM_CODE'')"
    by simp_all
  from n c e cb p0 p1 p2 show ?thesis by blast
qed

text \<open>
  With the token of no session, a reserve of mime \<open>application/pdf\<close> is answered
  \<open>INVALID_MIME\<close>, a commit with an empty path \<open>INVALID_PATH\<close>, and an end without a room
  code \<open>INVALID_ROOM_CODE\<close>. With the same empty body, each handler answers 401 without a
  token and 400 with the unknown token.
\<close>

theorem unauthorized_signals_counterexample:
  "carries_token sample_platform
     (reserve_request ''tok-nobody'' challenge_1 ''application/pdf'') ''tok-nobody''
   \<and> map session_token (player_sessions sample_world) = [''tok-alice'', ''tok-bob'', ''tok-carol'']
   \<and> fst (reserve_POST sample_platform
            (reserve_request ''tok-nobody'' challenge_1 ''application/pdf'') sample_world)
       = Inr (Failure 400 ''INVALID_MIME'')
   \<and> fst (commit_POST sample_platform
            (commit_request ''tok-nobody'' challenge_1 [] ''image/png'') sample_world)
       = Inr (Failure 400 ''INVALID_PATH'')
   \<and> fst (end_POST sample_platform (upload_request (Some ''tok-nobody'') []) sample_world)
       = Inr (Failure 400 ''INVALID_ROOM_CODE'')
   \<and> fst (end_POST sample_platform (upload_request None []) sample_world)
       = Inr (Failure 401 ''UNAUTHORIZED'')
   \<and> fst (reserve_POST sample_platform (upload_request (Some ''tok-nobody'') []) sample_world)
       = Inr (Failure 400 ''INVALID_PLAYER_CHALLENGE_ID'')
   \<and> fst (reserve_POST sample_platform (upload_request None []) sample_world)
       = Inr (Failure 401 ''UNAUTHORIZED'')
   \<and> fst (commit_POST sample_platform (upload_request (Some ''tok-nobody'') []) sample_world)
       = Inr (Failure 400 ''INVALID_PLAYER_CHALLENGE_ID'')
   \<and> fst (commit_POST sample_platform (upload_request None []) sample_world)
       = Inr (Failure 401 ''UNAUTHORIZED'')"
  by code_simp

section \<open>The mime check\<close>

text \<open>
  C8, as the handlers implement it. A request to upload-reserve or upload-commit whose
  mime does not declare the image or video family (it starts with neither \<open>image/\<close> nor
  \<open>video/\<close>, is empty, or is not a string) is rejected before any session lookup,
  challenge lookup or storage call: the world comes back as it was. The rejection is
  \<open>INVALID_MIME\<close> when the request carries a token and a valid id (and, for commit, a
  non-empty path); otherwise it is the rejection of the check that comes first
  (\<open>UNAUTHORIZED\<close>, \<open>INVALID_PLAYER_CHALLENGE_ID\<close>, \<open>INVALID_PATH\<close>).
\<close>

theorem invalid_mime_rejected:
  assumes "\<not> declares_media_family (body_mime req)"
  shows "reserve_POST P req w =
           (Inr (if no_token P req then Failure 401 ''UNAUTHORIZED''
                 else if \<not> validateUuid P (body_id req)
                 then Failure 400 ''INVALID_PLAYER_CHALLENGE_ID''
                 else Failure 400 ''INVALID_MIME''), w)
       \<and> commit_POST P req w =
           (Inr (if no_token P req then Failure 401 ''UNAUTHORIZED''
                 else if \<not> validateUuid P (body_id req)
                 then Failure 400 ''INVALID_PLAYER_CHALLENGE_ID''
                 else if body_path req = [] then Failure 400 ''INVALID_PATH''
                 else Failure 400 ''INVALID_MIME''), w)"
  using assms
  by (auto simp: no_token_def commit_POST_def reserve_POST_def
      body_id_def body_path_def body_mime_def mime_check Let_def
      split: option.splits)

text \<open>Alice sends a PDF for her own challenge.\<close>

theorem invalid_mime_rejected_witness:
  "\<not> declares_media_family
       (body_mime (commit_request ''tok-alice'' challenge_1 ''alice/x.pdf'' ''application/pdf''))
   \<and> reserve_POST sample_platform
        (commit_request ''tok-alice'' challenge_1 ''alice/x.pdf'' ''application/pdf'') sample_world
       = (Inr (Failure 400 ''INVALID_MIME''), sample_world)
   \<and> commit_POST sample_platform
        (commit_request ''tok-alice'' challenge_1 ''alice/x.pdf'' ''application/pdf'') sample_world
       = (Inr (Failure 400 ''INVALID_MIME''), sample_world)"
proof -
  let ?R = "commit_request ''tok-alice'' challenge_1 ''alice/x.pdf'' ''application/pdf''"
  have h: "\<not> declares_media_family (body_mime ?R)" by code_simp
  have v: "\<not> no_token sample_platform ?R" "validateUuid sample_platform (body_id ?R)"
    "body_path ?R \<noteq> []"
    by code_simp+
  from invalid_mime_rejected [OF h, of sample_platform sample_world] v h
  show ?thesis by simp
qed

text \<open>
  With the mime \<open>application/pdf\<close>, a reserve without a token is answered \<open>UNAUTHORIZED\<close>,
  a reserve without an id \<open>INVALID_PLAYER_CHALLENGE_ID\<close>, and a commit with an empty path
  \<open>INVALID_PATH\<close>.
\<close>

theorem invalid_mime_counterexample:
  "\<not> declares_media_family ''application/pdf''
   \<and> fst (reserve_POST sample_platform
            (upload_request None
               [(''playerChallengeId'', JStr challenge_1), (''mime'', JStr ''application/pdf'')])
            sample_world)
       = Inr (Failure 401 ''UNAUTHORIZED'')
   \<and> fst (reserve_POST sample_platform
            (upload_request (Some ''tok-alice'') [(''mime'', JStr ''application/pdf'')])
            sample_world)
       = Inr (Failure 400 ''INVALID_PLAYER_CHALLENGE_ID'')
   \<and> fst (commit_POST sample_platform
            (commit_request ''tok-alice'' challenge_1 [] ''application/pdf'') sample_world)
       = Inr (Failure 400 ''INVALID_PATH'')"
  by code_simp

section \<open>Only the owner ends a room\<close>

text \<open>
  C7. Take an authenticated player (the token resolves to a session and the session to a
  player row) and a room found by the request's valid code. If the membership lookup for
  that room and player does not give a row whose role is exactly \<open>owner\<close> (no row, an
  error, or another role), end returns \<open>NOT_ALLOWED\<close> (403) and changes no table.
  Conversely, whenever end succeeds, the membership table holds a row with role \<open>owner\<close>
  for the session's player and the room of that code. The handler reads nothing of the
  request but the token and the room code: two requests that agree on these get the same
  result, whatever else their bodies hold.
\<close>

theorem end_owner_only:
  "(carries_token P req tok \<and> validateRoomCode P (body_code req)
      \<and> find_session tok w = (Inr (Some s), ws)
      \<and> find_player (session_player_id s) ws = (Inr (Some p), wp)
      \<and> find_room (filter_value (body_code req)) wp = (Inr (Some r), wr)
      \<and> find_member (room_id r) (player_id p) wr = (found, wm)
      \<and> (\<forall>m. found = Inr (Some m) \<longrightarrow> member_role m \<noteq> ''owner'')
    \<longrightarrow> fst (end_POST P req w) = Inr (Failure 403 ''NOT_ALLOWED'')
        \<and> tables (snd (end_POST P req w)) = tables w)
   \<and> (end_POST P req w = (Inr (OkEnded t), w')
    \<longrightarrow> (\<exists>s p r m. s \<in> set (player_sessions w) \<and> carries_token P req (session_token s)
           \<and> p \<in> set (players w) \<and> player_id p = session_player_id s
           \<and> r \<in> set (rooms w) \<and> room_code r = filter_value (body_code req)
           \<and> m \<in> set (room_members w) \<and> member_room_id m = room_id r
           \<and> member_player_id m = player_id p \<and> member_role m = ''owner''))
   \<and> (readSessionTokenFromRequest P req' = readSessionTokenFromRequest P req
        \<and> body_code req' = body_code req
    \<longrightarrow> end_POST P req' w = end_POST P req w)"
proof (intro conjI impI; (elim conjE)?)
  assume a: "carries_token P req tok" "validateRoomCode P (body_code req)"
    "find_session tok w = (Inr (Some s), ws)"
    "find_player (session_player_id s) ws = (Inr (Some p), wp)"
    "find_room (filter_value (body_code req)) wp = (Inr (Some r), wr)"
    "find_member (room_id r) (player_id p) wr = (found, wm)"
    "\<forall>m. found = Inr (Some m) \<longrightarrow> member_role m \<noteq> ''owner''"
  have t: "tables wr = tables w" "tables wm = tables w"
    using find_tables(1) [OF a(3)] find_tables(3) [OF a(4)] find_tables(4) [OF a(5)]
      find_tables(5) [OF a(6)]
    by simp_all
  have run: "end_POST P req w = (Inr (Failure 403 ''NOT_ALLOWED''),
               if room_id r \<noteq> player_room_id p then wr else wm)"
    using a
    by (auto simp: end_POST_def body_defs Let_def split: sum.splits option.splits)
  show "fst (end_POST P req w) = Inr (Failure 403 ''NOT_ALLOWED'')"
    by (simp add: run)
  show "tables (snd (end_POST P req w)) = tables w"
    by (simp add: run t)
next
  assume "end_POST P req w = (Inr (OkEnded t), w')"
  from end_success_inv [OF this]
  obtain tok s ws p wp r wr m wm where h: "carries_token P req tok"
    "find_session tok w = (Inr (Some s), ws)"
    "find_player (session_player_id s) ws = (Inr (Some p), wp)"
    "find_room (filter_value (body_code req)) wp = (Inr (Some r), wr)"
    "find_member (room_id r) (player_id p) wr = (Inr (Some m), wm)"
    "member_role m = ''owner''"
    by blast
  note t = find_tables(1) [OF h(2)] find_tables(3) [OF h(3)] find_tables(4) [OF h(4)]
  have 1: "s \<in> set (player_sessions w) \<and> session_token s = tok"
    using filter_single [OF find_found(1) [OF h(2)]] by simp
  have 2: "p \<in> set (players w) \<and> player_id p = session_player_id s"
    using filter_single [OF find_found(3) [OF h(3)]] t by (simp add: tables_def)
  have 3: "r \<in> set (rooms w) \<and> room_code r = filter_value (body_code req)"
    using filter_single [OF find_found(4) [OF h(4)]] t by (simp add: tables_def)
  have 4: "m \<in> set (room_members w) \<and> member_room_id m = room_id r
             \<and> member_player_id m = player_id p"
    using filter_single [OF find_found(5) [OF h(5)]] t by (simp add: tables_def)
  show "\<exists>s p r m. s \<in> set (player_sessions w) \<and> carries_token P req (session_token s)
           \<and> p \<in> set (players w) \<and> player_id p = session_player_id s
           \<and> r \<in> set (rooms w) \<and> room_code r = filter_value (body_code req)
           \<and> m \<in> set (room_members w) \<and> member_room_id m = room_id r
           \<and> member_player_id m = player_id p \<and> member_role m = ''owner''"
    using 1 2 3 4 h(1) h(6) by blast
next
  assume h: "readSessionTokenFromRequest P req' = readSessionTokenFromRequest P req"
    "body_code req' = body_code req"
  show "end_POST P req' w = end_POST P req w"
    unfolding end_POST_def Let_def h(1) h(2) [unfolded body_code_def] by (rule refl)
qed

text \<open>
  Bob, a member of Alice's room, tries to end it, also with a body that claims the role;
  Alice's own call succeeds.
\<close>

theorem end_owner_only_witness:
  "member_role (room_members sample_world ! 1) = ''member''
   \<and> fst (end_POST sample_platform (end_request ''tok-bob'' ''ABCD'') sample_world)
       = Inr (Failure 403 ''NOT_ALLOWED'')
   \<and> tables (snd (end_POST sample_platform (end_request ''tok-bob'' ''ABCD'') sample_world))
       = tables sample_world
   \<and> fst (end_POST sample_platform (end_request ''tok-alice'' ''ABCD'') sample_world)
       = Inr (OkEnded (clock sample_world))
   \<and> (\<exists>s p r m. s \<in> set (player_sessions sample_world)
         \<and> carries_token sample_platform (end_request ''tok-alice'' ''ABCD'') (session_token s)
         \<and> p \<in> set (players sample_world) \<and> player_id p = session_player_id s
         \<and> r \<in> set (rooms sample_world)
         \<and> room_code r = filter_value (body_code (end_request ''tok-alice'' ''ABCD''))
         \<and> m \<in> set (room_members sample_world) \<and> member_room_id m = room_id r
         \<and> member_player_id m = player_id p \<and> member_role m = ''owner'')
   \<and> end_POST sample_platform
        (upload_request (Some ''tok-bob'') [(''code'', JStr ''ABCD''), (''role'', JStr ''owner'')])
        sample_world
       = end_POST sample_platform (end_request ''tok-bob'' ''ABCD'') sample_world"
proof -
  let ?SP = sample_platform and ?A0 = sample_world
  let ?E = "end_request ''tok-bob'' ''ABCD''"
  let ?EA = "end_request ''tok-alice'' ''ABCD''"
  let ?EX = "upload_request (Some ''tok-bob'') [(''code'', JStr ''ABCD''), (''role'', JStr ''owner'')]"
  let ?s = "player_sessions ?A0 ! 1"
  let ?A1 = "snd (find_session ''tok-bob'' ?A0)"
  let ?A2 = "snd (find_player (session_player_id ?s) ?A1)"
  let ?A3 = "snd (find_room (filter_value (body_code ?E)) ?A2)"
  let ?r = "rooms ?A0 ! 0" and ?p = "players ?A0 ! 1" and ?m = "room_members ?A0 ! 1"
  let ?A4 = "snd (find_member (room_id ?r) (player_id ?p) ?A3)"
  have a1: "carries_token ?SP ?E ''tok-bob''" by code_simp
  have a2: "validateRoomCode ?SP (body_code ?E)" by code_simp
  have a3: "find_session ''tok-bob'' ?A0 = (Inr (Some ?s), ?A1)"
    by (rule pair_fst_snd) code_simp
  have a4: "find_player (session_player_id ?s) ?A1 = (Inr (Some ?p), ?A2)"
    by (rule pair_fst_snd) code_simp
  have a5: "find_room (filter_value (body_code ?E)) ?A2 = (Inr (Some ?r), ?A3)"
    by (rule pair_fst_snd) code_simp
  have a6: "find_member (room_id ?r) (player_id ?p) ?A3 = (Inr (Some ?m), ?A4)"
    by (rule pair_fst_snd) code_simp
  have role: "member_role ?m = ''member''" by code_simp
  then have a7: "\<forall>m. (Inr (Some ?m) :: string + member_row option) = Inr (Some m)
                   \<longrightarrow> member_role m \<noteq> ''owner''"
    by simp
  have same: "readSessionTokenFromRequest ?SP ?EX = readSessionTokenFromRequest ?SP ?E"
    "body_code ?EX = body_code ?E"
    by code_simp+
  have ok: "fst (end_POST ?SP ?EA ?A0) = Inr (OkEnded (clock ?A0))" by code_simp
  note T = end_owner_only [where P = ?SP and req = ?E and tok = "''tok-bob''" and w = ?A0
      and s = ?s and ws = ?A1 and p = ?p and wp = ?A2 and r = ?r and wr = ?A3
      and found = "Inr (Some ?m)" and wm = ?A4 and req' = ?EX]
  note TA = end_owner_only [where P = ?SP and req = ?EA and w = ?A0
      and t = "clock ?A0" and w' = "snd (end_POST ?SP ?EA ?A0)"]
  from T a1 a2 a3 a4 a5 a6 a7
  have 1: "fst (end_POST ?SP ?E ?A0) = Inr (Failure 403 ''NOT_ALLOWED'')"
    and 2: "tables (snd (end_POST ?SP ?E ?A0)) = tables ?A0"
    by blast+
  from T same have 3: "end_POST ?SP ?EX ?A0 = end_POST ?SP ?E ?A0" by blast
  from TA pair_fst_snd [OF ok]
  have 4: "\<exists>s p r m. s \<in> set (player_sessions ?A0)
         \<and> carries_token ?SP ?EA (session_token s)
         \<and> p \<in> set (players ?A0) \<and> player_id p = session_player_id s
         \<and> r \<in> set (rooms ?A0) \<and> room_code r = filter_value (body_code ?EA)
         \<and> m \<in> set (room_members ?A0) \<and> member_room_id m = room_id r
         \<and> member_player_id m = player_id p \<and> member_role m = ''owner''"
    by blast
  from role 1 2 ok 4 3 show ?thesis by blast
qed

section \<open>The path of upload reserve\<close>

text \<open>
  C4. Whenever upload-reserve succeeds, it has made exactly three calls: the lookup of the
  session by the request's token, the lookup of the challenge by the trimmed id, and one
  credential request to storage, for the bucket and the path
  \<open>{player_id}/{ISO string of block_start}/{id of the challenge row}{extension}\<close>, where the
  player id is the session row's, \<open>block_start\<close> and the id are the challenge row's, and
  the extension is derived from the mime: a dot and the mime's subtype, or \<open>.jpg\<close> for an
  image and \<open>.mp4\<close> for a video without subtype. The extension holds no slash, so the
  mime adds no path component. The request enters only through its token, id and mime:
  a request that agrees on these with another (and carries, say, a path of its own) gets
  the same result.
\<close>

theorem reserve_path_shape:
  assumes "reserve_POST P req w = (Inr (OkUpload a b c), w')"
  shows "(\<exists>tok s cid pc iso.
            carries_token P req tok
          \<and> [x \<leftarrow> player_sessions w. session_token x = tok] = [s]
          \<and> body_id req = Some (JStr cid)
          \<and> [x \<leftarrow> player_challenges w. pc_id x = trim cid] = [pc]
          \<and> pc_player_id pc = session_player_id s
          \<and> toISOString P (pc_block_start pc) = Some iso
          \<and> calls w' = calls w @
              [Select ''player_sessions'' [(''session_token'', tok)],
               Select ''player_challenges'' [(''id'', trim cid)],
               CreateSignedUploadUrl BUCKET
                 (session_player_id s @ ''/'' @ iso @ ''/'' @ pc_id pc
                    @ extFromMime (body_mime req)) True])
       \<and> extFromMime (body_mime req)
           = (if family_subtype (body_mime req) ! 1 \<noteq> []
              then ''.'' @ family_subtype (body_mime req) ! 1
              else if startsWith (body_mime req) ''image/'' then ''.jpg'' else ''.mp4'')
       \<and> CHR ''/'' \<notin> set (extFromMime (body_mime req))
       \<and> (readSessionTokenFromRequest P req' = readSessionTokenFromRequest P req
            \<and> body_id req' = body_id req \<and> body_mime req' = body_mime req
          \<longrightarrow> reserve_POST P req' w = reserve_POST P req w)"
proof (intro conjI impI; (elim conjE)?)
  from reserve_success_calls [OF assms]
  show "\<exists>tok s cid pc iso.
            carries_token P req tok
          \<and> [x \<leftarrow> player_sessions w. session_token x = tok] = [s]
          \<and> body_id req = Some (JStr cid)
          \<and> [x \<leftarrow> player_challenges w. pc_id x = trim cid] = [pc]
          \<and> pc_player_id pc = session_player_id s
          \<and> toISOString P (pc_block_start pc) = Some iso
          \<and> calls w' = calls w @
              [Select ''player_sessions'' [(''session_token'', tok)],
               Select ''player_challenges'' [(''id'', trim cid)],
               CreateSignedUploadUrl BUCKET
                 (session_player_id s @ ''/'' @ iso @ ''/'' @ pc_id pc
                    @ extFromMime (body_mime req)) True]"
    by blast
next
  from reserve_success_inv [OF assms]
  have d: "declares_media_family (body_mime req)" by blast
  show "extFromMime (body_mime req)
           = (if family_subtype (body_mime req) ! 1 \<noteq> []
              then ''.'' @ family_subtype (body_mime req) ! 1
              else if startsWith (body_mime req) ''image/'' then ''.jpg'' else ''.mp4'')"
  proof (cases "body_mime req" rule: family_subtype_cases)
    case (1 a)
    with d show ?thesis
      by (simp add: declares_media_family_def startsWith_family)
  next
    case (2 a b rest)
    with d show ?thesis
      by (auto simp: extFromMime_family_subtype declares_media_family_def startsWith_family)
  qed
next
  show "CHR ''/'' \<notin> set (extFromMime (body_mime req))"
    by (rule extFromMime_no_slash)
next
  assume h: "readSessionTokenFromRequest P req' = readSessionTokenFromRequest P req"
    "body_id req' = body_id req" "body_mime req' = body_mime req"
  show "reserve_POST P req' w = reserve_POST P req w"
    unfolding reserve_POST_def Let_def h(1) h(2) [unfolded body_id_def]
      h(3) [unfolded body_mime_def]
    by (rule refl)
qed

text \<open>
  Alice reserves an upload of a PNG for her challenge; a request that also carries a path
  gets the same answer.
\<close>

theorem reserve_path_shape_witness:
  "fst (reserve_POST sample_platform (reserve_request ''tok-alice'' challenge_1 ''image/png'')
          sample_world)
     = Inr (OkUpload png_path ''credential''
              (''https://storage.example/object/upload/sign/retos/'' @ png_path))
   \<and> calls (snd (reserve_POST sample_platform
                    (reserve_request ''tok-alice'' challenge_1 ''image/png'') sample_world))
     = [Select ''player_sessions'' [(''session_token'', ''tok-alice'')],
        Select ''player_challenges'' [(''id'', challenge_1)],
        CreateSignedUploadUrl ''retos'' png_path True]
   \<and> reserve_POST sample_platform
        (commit_request ''tok-alice'' challenge_1 ''bob/evil.png'' ''image/png'') sample_world
     = reserve_POST sample_platform (reserve_request ''tok-alice'' challenge_1 ''image/png'')
         sample_world"
proof -
  let ?SP = sample_platform and ?A0 = sample_world
  let ?R = "reserve_request ''tok-alice'' challenge_1 ''image/png''"
  let ?R2 = "commit_request ''tok-alice'' challenge_1 ''bob/evil.png'' ''image/png''"
  let ?url = "''https://storage.example/object/upload/sign/retos/'' @ png_path"
  have ok: "fst (reserve_POST ?SP ?R ?A0) = Inr (OkUpload png_path ''credential'' ?url)"
    by code_simp
  have same: "readSessionTokenFromRequest ?SP ?R2 = readSessionTokenFromRequest ?SP ?R"
    "body_id ?R2 = body_id ?R" "body_mime ?R2 = body_mime ?R"
    by code_simp+
  note T = reserve_path_shape [OF pair_fst_snd [OF ok], of ?R2]
  from T obtain tok s cid pc iso where h: "carries_token ?SP ?R tok"
    "[x \<leftarrow> player_sessions ?A0. session_token x = tok] = [s]"
    "body_id ?R = Some (JStr cid)"
    "[x \<leftarrow> player_challenges ?A0. pc_id x = trim cid] = [pc]"
    "toISOString ?SP (pc_block_start pc) = Some iso"
    "calls (snd (reserve_POST ?SP ?R ?A0)) = calls ?A0 @
       [Select ''player_sessions'' [(''session_token'', tok)],
        Select ''player_challenges'' [(''id'', trim cid)],
        CreateSignedUploadUrl BUCKET
          (session_player_id s @ ''/'' @ iso @ ''/'' @ pc_id pc @ extFromMime (body_mime ?R))
          True]"
    by blast
  have t0: "readSessionTokenFromRequest ?SP ?R = Some ''tok-alice''" by code_simp
  have tok: "tok = ''tok-alice''" using h(1) t0 by (simp add: carries_token_def)
  have s0: "[x \<leftarrow> player_sessions ?A0. session_token x = ''tok-alice''] = [alice_session]"
    by code_simp
  have s: "s = alice_session" using h(2) s0 tok by simp
  have c0: "body_id ?R = Some (JStr challenge_1)" by code_simp
  have cid: "cid = challenge_1" using h(3) c0 by simp
  have p0: "[x \<leftarrow> player_challenges ?A0. pc_id x = trim challenge_1]
              = [player_challenges ?A0 ! 0]"
    by code_simp
  have pc: "pc = player_challenges ?A0 ! 0" using h(4) p0 cid by simp
  have i0: "toISOString ?SP (pc_block_start (player_challenges ?A0 ! 0))
              = Some ''2024-05-01T10:00:00.000Z''"
    by code_simp
  have iso: "iso = ''2024-05-01T10:00:00.000Z''" using h(5) i0 pc by simp
  have e0: "session_player_id alice_session @ ''/'' @ ''2024-05-01T10:00:00.000Z'' @ ''/''
              @ pc_id (player_challenges ?A0 ! 0) @ extFromMime (body_mime ?R) = png_path"
    by code_simp
  have k0: "calls ?A0 = []" "trim challenge_1 = challenge_1" "BUCKET = ''retos''"
    by code_simp+
  have calls: "calls (snd (reserve_POST ?SP ?R ?A0))
     = [Select ''player_sessions'' [(''session_token'', ''tok-alice'')],
        Select ''player_challenges'' [(''id'', challenge_1)],
        CreateSignedUploadUrl ''retos'' png_path True]"
    using h(6) e0 by (simp only: tok s cid pc iso k0 append_Nil)
  from T same have indep: "reserve_POST ?SP ?R2 ?A0 = reserve_POST ?SP ?R ?A0" by blast
  from ok calls indep show ?thesis by blast
qed

section \<open>Repeated reserve\<close>



section \<open>What upload commit accepts\<close>

text \<open>
  C9. Take an upload-commit request by the challenge's owning player with a mime that
  declares image or video. Any path that starts with the player's id and a slash is
  accepted when the store takes the update: nothing else of the path is looked at, neither
  the block start, nor the challenge id, nor the extension, nor whether any reserve was
  made. The response is a success and the challenge's row holds the public URL that the
  storage client gives for the path as supplied.
\<close>

theorem commit_accepts_own_prefix:
  assumes "carries_token P req tok"
    and "validateUuid P (body_id req)"
    and "body_id req = Some (JStr cid)"
    and "declares_media_family (body_mime req)"
    and "find_session tok w = (Inr (Some s), ws)"
    and "find_challenge (trim cid) ws = (Inr (Some pc), wc)"
    and "pc_player_id pc = session_player_id s"
    and "startsWith (body_path req) (session_player_id s @ ''/'')"
    and "next_fault wc = None"
  shows "fst (commit_POST P req w)
           = Inr (OkMedia (getPublicUrl P BUCKET (body_path req)) (body_mime req)
                    (mediaTypeFromMime (body_mime req)))
       \<and> pc\<lparr>media_url := Some (getPublicUrl P BUCKET (body_path req)),
             media_type := Some (mediaTypeFromMime (body_mime req)),
             media_mime := Some (body_mime req),
             media_uploaded_at := Some (clock w)\<rparr>
           \<in> set (player_challenges (snd (commit_POST P req w)))
       \<and> (\<forall>r \<in> set (player_challenges (snd (commit_POST P req w))).
             pc_id r = pc_id pc
             \<longrightarrow> media_url r = Some (getPublicUrl P BUCKET (body_path req)))"
proof -
  let ?url = "getPublicUrl P BUCKET (body_path req)"
  let ?ty = "mediaTypeFromMime (body_mime req)"
  let ?upd = "\<lambda>r. if pc_id r = pc_id pc
                   then r\<lparr>media_url := Some ?url, media_type := Some ?ty,
                          media_mime := Some (body_mime req),
                          media_uploaded_at := Some (clock w)\<rparr>
                   else r"
  note ws = find_world(1) [OF assms(5)] and wc = find_world(2) [OF assms(6)]
  have ne: "body_path req \<noteq> []"
    using assms(8) by (auto simp: startsWith_def)
  have ck: "clock wc = clock w" by (simp add: wc ws)
  have tb: "player_challenges wc = player_challenges w" by (simp add: wc ws)
  have run: "commit_POST P req w
               = (Inr (OkMedia ?url (body_mime req) ?ty),
                  snd (update_challenge_media (pc_id pc) ?url ?ty (body_mime req) (clock wc) wc))"
    using assms ne
    by (simp add: commit_POST_def body_defs mime_check Let_def update_challenge_media_def
        store_call_def)
  have upd: "player_challenges
               (snd (update_challenge_media (pc_id pc) ?url ?ty (body_mime req) (clock wc) wc))
             = map ?upd (player_challenges w)"
    using assms(9) by (simp add: update_challenge_media_def store_call_def ck tb)
  have mem: "pc \<in> set (player_challenges w)"
    using filter_single [OF find_found(2) [OF assms(6)]] by (simp add: ws)
  have 1: "fst (commit_POST P req w) = Inr (OkMedia ?url (body_mime req) ?ty)"
    by (simp add: run)
  have 2: "?upd pc \<in> set (player_challenges (snd (commit_POST P req w)))"
    using mem by (simp only: run snd_conv upd set_map) (rule imageI)
  have 3: "\<forall>r \<in> set (player_challenges (snd (commit_POST P req w))).
             pc_id r = pc_id pc \<longrightarrow> media_url r = Some ?url"
    by (auto simp: run upd)
  from 1 2 3 show ?thesis by simp
qed

text \<open>
  In a world where no reserve was ever made, Alice commits a path under her prefix that
  has nothing of the shape a reserve derives.
\<close>

theorem commit_accepts_own_prefix_witness:
  "startsWith odd_path (session_player_id alice_session @ ''/'')
   \<and> calls sample_world = []
   \<and> fst (commit_POST sample_platform
            (commit_request ''tok-alice'' challenge_1 odd_path ''image/png'') sample_world)
       = Inr (OkMedia (''https://storage.example/object/public/retos/'' @ odd_path)
                ''image/png'' ''image'')
   \<and> (player_challenges sample_world ! 0)
        \<lparr>media_url := Some (''https://storage.example/object/public/retos/'' @ odd_path),
         media_type := Some ''image'', media_mime := Some ''image/png'',
         media_uploaded_at := Some (clock sample_world)\<rparr>
       \<in> set (player_challenges (snd (commit_POST sample_platform
                 (commit_request ''tok-alice'' challenge_1 odd_path ''image/png'') sample_world)))"
proof -
  let ?SP = sample_platform and ?A0 = sample_world
  let ?R = "commit_request ''tok-alice'' challenge_1 odd_path ''image/png''"
  let ?A1 = "snd (find_session ''tok-alice'' ?A0)"
  let ?A2 = "snd (find_challenge (trim challenge_1) ?A1)"
  let ?pc = "player_challenges ?A0 ! 0"
  have a1: "carries_token ?SP ?R ''tok-alice''" by code_simp
  have a2: "validateUuid ?SP (body_id ?R)" by code_simp
  have a3: "body_id ?R = Some (JStr challenge_1)" by code_simp
  have a4: "declares_media_family (body_mime ?R)" by code_simp
  have a5: "find_session ''tok-alice'' ?A0 = (Inr (Some alice_session), ?A1)"
    by (rule pair_fst_snd) code_simp
  have a6: "find_challenge (trim challenge_1) ?A1 = (Inr (Some ?pc), ?A2)"
    by (rule pair_fst_snd) code_simp
  have a7: "pc_player_id ?pc = session_player_id alice_session" by code_simp
  have a8: "startsWith (body_path ?R) (session_player_id alice_session @ ''/'')" by code_simp
  have a9: "next_fault ?A2 = None" by code_simp
  have e: "getPublicUrl ?SP BUCKET (body_path ?R)
             = ''https://storage.example/object/public/retos/'' @ odd_path"
    "body_mime ?R = ''image/png''" "mediaTypeFromMime ''image/png'' = ''image''"
    by code_simp+
  have pre: "startsWith odd_path (session_player_id alice_session @ ''/'')"
    "calls ?A0 = []"
    by code_simp+
  from commit_accepts_own_prefix [OF a1 a2 a3 a4 a5 a6 a7 a8 a9]
  have "fst (commit_POST ?SP ?R ?A0)
          = Inr (OkMedia (''https://storage.example/object/public/retos/'' @ odd_path)
                   ''image/png'' ''image'')"
    and "?pc\<lparr>media_url := Some (''https://storage.example/object/public/retos/'' @ odd_path),
              media_type := Some ''image'', media_mime := Some ''image/png'',
              media_uploaded_at := Some (clock ?A0)\<rparr>
          \<in> set (player_challenges (snd (commit_POST ?SP ?R ?A0)))"
    by (simp_all only: e)
  with pre show ?thesis by blast
qed

section \<open>What upload commit records\<close>

text \<open>
  C5. Whenever upload-commit succeeds, the media type in the response and on the record is
  \<open>video\<close> exactly when the request's mime starts with \<open>video/\<close> and \<open>image\<close> otherwise;
  the URL is the public URL of the request's path and the mime is the request's. The row
  of the challenge gets these three values and the current time in \<open>media_url\<close>,
  \<open>media_type\<close>, \<open>media_mime\<close> and \<open>media_uploaded_at\<close>, whatever it held before; no
  other row changes and the table keeps its length, so a new submission replaces the
  previous one.
\<close>

theorem commit_records_media:
  assumes "commit_POST P req w = (Inr (OkMedia url mime ty), w')"
  shows "mime = body_mime req
       \<and> url = getPublicUrl P BUCKET (body_path req)
       \<and> (ty = ''video'' \<longleftrightarrow> startsWith (body_mime req) ''video/'')
       \<and> (ty = ''image'' \<longleftrightarrow> \<not> startsWith (body_mime req) ''video/'')
       \<and> (\<exists>cid pc. body_id req = Some (JStr cid)
            \<and> [x \<leftarrow> player_challenges w. pc_id x = trim cid] = [pc]
            \<and> player_challenges w'
                = map (\<lambda>r. if pc_id r = pc_id pc
                            then r\<lparr>media_url := Some url, media_type := Some ty,
                                   media_mime := Some mime,
                                   media_uploaded_at := Some (clock w)\<rparr>
                            else r) (player_challenges w))
       \<and> length (player_challenges w') = length (player_challenges w)"
proof -
  from commit_success_inv [OF assms]
  obtain tok s ws cid pc wc where h:
    "body_id req = Some (JStr cid)"
    "find_session tok w = (Inr (Some s), ws)"
    "find_challenge (trim cid) ws = (Inr (Some pc), wc)"
    "update_challenge_media (pc_id pc) url ty mime (clock wc) wc = (None, w')"
    "url = getPublicUrl P BUCKET (body_path req)"
    "ty = mediaTypeFromMime (body_mime req)" "mime = body_mime req"
    by blast
  note ws = find_world(1) [OF h(2)] and wc = find_world(2) [OF h(3)]
  have f: "[x \<leftarrow> player_challenges w. pc_id x = trim cid] = [pc]"
    using find_found(2) [OF h(3)] by (simp add: ws)
  have upd: "player_challenges w'
                = map (\<lambda>r. if pc_id r = pc_id pc
                            then r\<lparr>media_url := Some url, media_type := Some ty,
                                   media_mime := Some mime,
                                   media_uploaded_at := Some (clock w)\<rparr>
                            else r) (player_challenges w)"
    using h(4)
    by (auto simp: update_challenge_media_def store_call_def wc ws split: option.splits)
  have len: "length (player_challenges w') = length (player_challenges w)"
    by (simp add: upd)
  have ty: "(ty = ''video'' \<longleftrightarrow> startsWith (body_mime req) ''video/'')"
    "(ty = ''image'' \<longleftrightarrow> \<not> startsWith (body_mime req) ''video/'')"
    by (simp_all add: h(6) mediaTypeFromMime_def)
  from h(1,5,7) f upd len ty show ?thesis by blast
qed

text \<open>Alice's challenge holds an image; she commits a video for it.\<close>

theorem commit_records_media_witness:
  "media_type (player_challenges sample_world ! 0) = Some ''image''
   \<and> fst (commit_POST sample_platform
            (commit_request ''tok-alice'' challenge_1 ''alice/clip.mp4'' ''video/mp4'')
            sample_world)
       = Inr (OkMedia mp4_url ''video/mp4'' ''video'')
   \<and> startsWith ''video/mp4'' ''video/''
   \<and> length (player_challenges (snd (commit_POST sample_platform
                (commit_request ''tok-alice'' challenge_1 ''alice/clip.mp4'' ''video/mp4'')
                sample_world)))
       = length (player_challenges sample_world)
   \<and> player_challenges (snd (commit_POST sample_platform
                (commit_request ''tok-alice'' challenge_1 ''alice/clip.mp4'' ''video/mp4'')
                sample_world))
       = map (\<lambda>r. if pc_id r = challenge_1
                   then r\<lparr>media_url := Some mp4_url, media_type := Some ''video'',
                          media_mime := Some ''video/mp4'',
                          media_uploaded_at := Some (clock sample_world)\<rparr>
                   else r) (player_challenges sample_world)"
proof -
  let ?SP = sample_platform and ?A0 = sample_world
  let ?R = "commit_request ''tok-alice'' challenge_1 ''alice/clip.mp4'' ''video/mp4''"
  have ok: "fst (commit_POST ?SP ?R ?A0) = Inr (OkMedia mp4_url ''video/mp4'' ''video'')"
    by code_simp
  have before: "media_type (player_challenges ?A0 ! 0) = Some ''image''" by code_simp
  have m: "body_mime ?R = ''video/mp4''" by code_simp
  note T = commit_records_media [OF pair_fst_snd [OF ok]]
  from T m have v: "startsWith ''video/mp4'' ''video/''" by simp
  from T have len: "length (player_challenges (snd (commit_POST ?SP ?R ?A0)))
                      = length (player_challenges ?A0)"
    by blast
  from T obtain cid pc where h: "body_id ?R = Some (JStr cid)"
    "[x \<leftarrow> player_challenges ?A0. pc_id x = trim cid] = [pc]"
    "player_challenges (snd (commit_POST ?SP ?R ?A0))
       = map (\<lambda>r. if pc_id r = pc_id pc
                   then r\<lparr>media_url := Some mp4_url, media_type := Some ''video'',
                          media_mime := Some ''video/mp4'',
                          media_uploaded_at := Some (clock ?A0)\<rparr>
                   else r) (player_challenges ?A0)"
    by blast
  have c0: "body_id ?R = Some (JStr challenge_1)" by code_simp
  have p0: "map pc_id [x \<leftarrow> player_challenges ?A0. pc_id x = trim challenge_1] = [challenge_1]"
    by code_simp
  have "pc_id pc = challenge_1" using h(1,2) c0 p0 by simp
  with h(3) have upd: "player_challenges (snd (commit_POST ?SP ?R ?A0))
       = map (\<lambda>r. if pc_id r = challenge_1
                   then r\<lparr>media_url := Some mp4_url, media_type := Some ''video'',
                          media_mime := Some ''video/mp4'',
                          media_uploaded_at := Some (clock ?A0)\<rparr>
                   else r) (player_challenges ?A0)"
    by simp
  from before ok v len upd show ?thesis by blast
qed

end
